theory Spec2Isabelle
  imports Complex_Main
begin

section \<open>Tensors and framework failures\<close>

text \<open>
  The repository computes with tensors of floating-point numbers. The embedding reads
  every number as a real and every tensor as nested lists: a vector is a list of reals, a
  two-dimensional tensor is a list of rows together with its number of columns (which the
  framework also knows when there is no row).
\<close>

type_synonym vec = "real list"

record tensor2 =
  t_cols :: nat
  t_rows :: "vec list"

text \<open>
  What a call can end with instead of a value. The first three are the exceptions of
  Python and of the tensor framework. \<open>NotANumber\<close> is no exception: it stands for the NaN
  that the framework returns for the mean of a tensor without elements, which no real
  number represents.
\<close>

datatype error = ValueError | IndexError | RuntimeError | NotANumber

definition bindE :: "error + 'a \<Rightarrow> ('a \<Rightarrow> error + 'b) \<Rightarrow> error + 'b" where
  "bindE m f = (case m of Inl e \<Rightarrow> Inl e | Inr v \<Rightarrow> f v)"

subsection \<open>Element-wise operations of the framework on vectors\<close>

text \<open>\<^verbatim>\<open>c - t\<close> for a Python number \<open>c\<close> and a tensor \<open>t\<close>.\<close>

definition rsub :: "real \<Rightarrow> vec \<Rightarrow> vec" where
  "rsub c t = map (\<lambda>x. c - x) t"

text \<open>\<^verbatim>\<open>torch.pow(t, n)\<close>.\<close>

definition torch_pow :: "vec \<Rightarrow> nat \<Rightarrow> vec" where
  "torch_pow t n = map (\<lambda>x. x ^ n) t"

text \<open>\<^verbatim>\<open>torch.clamp(t, min=lo)\<close>.\<close>

definition torch_clamp_min :: "vec \<Rightarrow> real \<Rightarrow> vec" where
  "torch_clamp_min t lo = map (\<lambda>x. max lo x) t"

text \<open>
  A binary operation on two one-dimensional tensors: the shapes must agree, or one of
  them has a single element, which is then broadcast; otherwise the framework raises.
\<close>

definition broadcast :: "(real \<Rightarrow> real \<Rightarrow> real) \<Rightarrow> vec \<Rightarrow> vec \<Rightarrow> error + vec" where
  "broadcast f a b =
     (if length a = length b then Inr (map2 f a b)
      else if length a = 1 then Inr (map (\<lambda>y. f (hd a) y) b)
      else if length b = 1 then Inr (map (\<lambda>x. f x (hd b)) a)
      else Inl RuntimeError)"

text \<open>\<^verbatim>\<open>torch.mean(t)\<close>: NaN when \<open>t\<close> has no element.\<close>

definition torch_mean :: "vec \<Rightarrow> error + real" where
  "torch_mean t = (if t = [] then Inl NotANumber else Inr (sum_list t / real (length t)))"

text \<open>
  \<^verbatim>\<open>F.pairwise_distance(x1, x2)\<close>: one distance for each pair of rows of two tensors of
  the same shape. The function belongs to the framework, not to the repository, so the
  distance of two rows is a parameter \<open>pdist\<close> of the model.
\<close>

definition pairwise_distance ::
  "(vec \<Rightarrow> vec \<Rightarrow> real) \<Rightarrow> tensor2 \<Rightarrow> tensor2 \<Rightarrow> error + vec" where
  "pairwise_distance pdist x1 x2 =
     (if length (t_rows x1) = length (t_rows x2) \<and> t_cols x1 = t_cols x2
      then Inr (map2 pdist (t_rows x1) (t_rows x2))
      else Inl RuntimeError)"

text \<open>The Euclidean distance of two rows, the metric that \<open>pdist\<close> stands for.\<close>

definition euclidean :: "vec \<Rightarrow> vec \<Rightarrow> real" where
  "euclidean x y = sqrt (sum_list (map2 (\<lambda>a b. (a - b)\<^sup>2) x y))"

section \<open>The contrastive losses (losses.py)\<close>

text \<open>
  \<^verbatim>\<open>ContrastiveLoss.forward(self, output1, output2, label)\<close>; \<open>margin\<close> is the field
  \<^verbatim>\<open>self.margin\<close>.
\<close>

definition ContrastiveLoss_forward ::
  "(vec \<Rightarrow> vec \<Rightarrow> real) \<Rightarrow> real \<Rightarrow> tensor2 \<Rightarrow> tensor2 \<Rightarrow> vec \<Rightarrow> error + real" where
  "ContrastiveLoss_forward pdist margin output1 output2 label =
     bindE (pairwise_distance pdist output1 output2) (\<lambda>euclidean_distance.
     bindE (broadcast (*) (rsub 1 label) (torch_pow euclidean_distance 2)) (\<lambda>similar.
     bindE (broadcast (*) label
              (torch_pow (torch_clamp_min (rsub margin euclidean_distance) 0) 2)) (\<lambda>dissimilar.
     bindE (broadcast (+) similar dissimilar) (\<lambda>total.
     torch_mean total))))"

text \<open>\<^verbatim>\<open>SBContrastiveLoss.forward(self, desc1, desc2, label)\<close>.\<close>

definition SBContrastiveLoss_forward ::
  "(vec \<Rightarrow> vec \<Rightarrow> real) \<Rightarrow> real \<Rightarrow> tensor2 \<Rightarrow> tensor2 \<Rightarrow> vec \<Rightarrow> error + real" where
  "SBContrastiveLoss_forward pdist margin desc1 desc2 label =
     bindE (pairwise_distance pdist desc1 desc2) (\<lambda>euclidean_distance.
     bindE (broadcast (*) (rsub 1 label) (torch_pow euclidean_distance 2)) (\<lambda>similar.
     bindE (broadcast (*) label
              (torch_pow (torch_clamp_min (rsub margin euclidean_distance) 0) 2)) (\<lambda>dissimilar.
     bindE (broadcast (+) similar dissimilar) (\<lambda>total.
     torch_mean total))))"

text \<open>
  The formula of the contrastive loss as the specification writes it, over the indices of
  the batch: \<open>d i\<close> is the distance of the \<open>i\<close>-th pair and \<open>n\<close> the number of pairs.
\<close>

definition contrastive_formula :: "real \<Rightarrow> (nat \<Rightarrow> real) \<Rightarrow> vec \<Rightarrow> nat \<Rightarrow> real" where
  "contrastive_formula margin d label n =
     (\<Sum>i<n. (1 - label ! i) * (d i)\<^sup>2 + label ! i * (max 0 (margin - d i))\<^sup>2) / real n"

text \<open>
  The stochastic bidirectional contrastive loss as the docstring of
  \<^verbatim>\<open>SBContrastiveLoss.forward\<close> writes it: for the \<open>i\<close>-th descriptor \<open>f\<close> of the first
  branch, \<open>v\<close> is its partner in the second branch and \<open>v_k\<close> ranges over the other
  descriptors of the second branch, and symmetrically for the second branch.
\<close>

definition sb_hinge_sum :: "(vec \<Rightarrow> vec \<Rightarrow> real) \<Rightarrow> real \<Rightarrow> vec list \<Rightarrow> vec list \<Rightarrow> real" where
  "sb_hinge_sum pdist m fs vs =
     sum_list (map (\<lambda>i.
       sum_list (map (\<lambda>k. max 0 (m - pdist (fs ! i) (vs ! i) + pdist (fs ! i) (vs ! k)))
                     (filter (\<lambda>k. k \<noteq> i) [0..<length vs])))
       [0..<length fs])"

definition sb_contrastive_formula ::
  "(vec \<Rightarrow> vec \<Rightarrow> real) \<Rightarrow> real \<Rightarrow> tensor2 \<Rightarrow> tensor2 \<Rightarrow> real" where
  "sb_contrastive_formula pdist m desc1 desc2 =
     sb_hinge_sum pdist m (t_rows desc1) (t_rows desc2)
     + sb_hinge_sum pdist m (t_rows desc2) (t_rows desc1)"

section \<open>Python and framework operations used by the model (model.py)\<close>

text \<open>
  A three-dimensional tensor: the list along the first axis of the lists along the second
  axis of the vectors along the third, with the sizes of the second and third axes. The
  device of a tensor (\<^verbatim>\<open>is_cuda\<close>, \<^verbatim>\<open>.cuda()\<close>) changes no value and is not part of the
  model: both branches of every device test build the same tensor.
\<close>

record tensor3 =
  t3_size1 :: nat
  t3_size2 :: nat
  t3_data :: "vec list list"

text \<open>
  The framework's \<^verbatim>\<open>PackedSequence\<close>, kept as its time steps: step \<open>t\<close> holds the rows of
  the sequences that are still running at time \<open>t\<close>, longest sequence first. The
  framework's fields \<^verbatim>\<open>data\<close> and \<^verbatim>\<open>batch_sizes\<close> are the concatenation of the steps and
  their sizes.
\<close>

record packed_sequence =
  ps_dim :: nat
  ps_steps :: "vec list list"

definition ps_data :: "packed_sequence \<Rightarrow> vec list" where
  "ps_data ps = concat (ps_steps ps)"

definition ps_batch_sizes :: "packed_sequence \<Rightarrow> nat list" where
  "ps_batch_sizes ps = map length (ps_steps ps)"

text \<open>A \<^verbatim>\<open>for\<close> loop over a list that updates a state and stops at the first exception.\<close>

fun foldE :: "('a \<Rightarrow> 's \<Rightarrow> error + 's) \<Rightarrow> 'a list \<Rightarrow> 's \<Rightarrow> error + 's" where
  "foldE f [] s = Inr s"
| "foldE f (x # xs) s = bindE (f x s) (foldE f xs)"

text \<open>A list comprehension whose element expression can raise.\<close>

fun mapE :: "('a \<Rightarrow> error + 'b) \<Rightarrow> 'a list \<Rightarrow> error + 'b list" where
  "mapE f [] = Inr []"
| "mapE f (x # xs) = bindE (f x) (\<lambda>y. bindE (mapE f xs) (\<lambda>ys. Inr (y # ys)))"

text \<open>\<^verbatim>\<open>max(xs)\<close>: \<^verbatim>\<open>ValueError\<close> on an empty sequence.\<close>

definition py_max :: "int list \<Rightarrow> error + int" where
  "py_max xs = (if xs = [] then Inl ValueError else Inr (Max (set xs)))"

text \<open>
  \<^verbatim>\<open>xs[i]\<close> on a Python list or along the first axis of a tensor: a negative index counts
  from the end, an index outside \<open>-n \<le> i < n\<close> raises \<^verbatim>\<open>IndexError\<close>.
\<close>

definition py_index :: "'a list \<Rightarrow> int \<Rightarrow> error + 'a" where
  "py_index xs i =
     (let n = int (length xs)
      in if 0 \<le> i \<and> i < n then Inr (xs ! nat i)
         else if - n \<le> i \<and> i < 0 then Inr (xs ! nat (n + i))
         else Inl IndexError)"

text \<open>\<^verbatim>\<open>torch.zeros((b, m, d))\<close>: the framework refuses a negative size.\<close>

definition torch_zeros3 :: "nat \<Rightarrow> int \<Rightarrow> nat \<Rightarrow> error + tensor3" where
  "torch_zeros3 b m d =
     (if m < 0 then Inl RuntimeError
      else Inr \<lparr>t3_size1 = nat m, t3_size2 = d,
                t3_data = replicate b (replicate (nat m) (replicate d 0))\<rparr>)"

text \<open>\<^verbatim>\<open>t[i, j] = v\<close> for indices \<open>i\<close>, \<open>j\<close> that are not negative.\<close>

definition assign_row :: "tensor3 \<Rightarrow> nat \<Rightarrow> nat \<Rightarrow> vec \<Rightarrow> error + tensor3" where
  "assign_row t i j v =
     (if i < length (t3_data t) \<and> j < t3_size1 t
      then Inr (t\<lparr>t3_data := (t3_data t)[i := (t3_data t ! i)[j := v]]\<rparr>)
      else Inl IndexError)"

text \<open>\<^verbatim>\<open>t[ks, :]\<close> for a list \<open>ks\<close> of indices: the rows of \<open>t\<close> in the order of \<open>ks\<close>.\<close>

definition index_rows :: "tensor3 \<Rightarrow> nat list \<Rightarrow> error + tensor3" where
  "index_rows t ks =
     bindE (mapE (\<lambda>k. py_index (t3_data t) (int k)) ks) (\<lambda>rs. Inr (t\<lparr>t3_data := rs\<rparr>))"

text \<open>\<^verbatim>\<open>t.permute(1, 0, 2)\<close>: the first two axes exchanged.\<close>

definition permute_1_0_2 :: "tensor3 \<Rightarrow> tensor3" where
  "permute_1_0_2 t =
     \<lparr>t3_size1 = length (t3_data t), t3_size2 = t3_size2 t,
      t3_data = map (\<lambda>j. map (\<lambda>i. t3_data t ! i ! j) [0..<length (t3_data t)])
                    [0..<t3_size1 t]\<rparr>"

text \<open>
  \<^verbatim>\<open>sorted(xs, key=key, reverse=True)\<close>: decreasing keys, elements with equal keys in their
  original order.
\<close>

definition py_sorted_reverse :: "('a \<Rightarrow> int) \<Rightarrow> 'a list \<Rightarrow> 'a list" where
  "py_sorted_reverse key xs = sort_key (\<lambda>x. - key x) xs"

text \<open>
  The framework's \<^verbatim>\<open>pack_padded_sequence(input, lengths, batch_first)\<close>, from its
  documentation: the input is made time-major, the lengths must be positive, one for
  each sequence of the batch, in decreasing order and not longer than the input; step
  \<open>t\<close> of the result holds the rows at time \<open>t\<close> of the sequences longer than \<open>t\<close>.
\<close>

definition pack_padded_sequence :: "tensor3 \<Rightarrow> int list \<Rightarrow> bool \<Rightarrow> error + packed_sequence" where
  "pack_padded_sequence input lengths batch_first =
     (let inp = (if batch_first then permute_1_0_2 input else input)
      in if lengths = [] then Inl IndexError
         else if last lengths \<le> 0 then Inl ValueError
         else if length lengths \<noteq> t3_size1 inp then Inl ValueError
         else if \<not> sorted (rev lengths) then Inl ValueError
         else if int (length (t3_data inp)) < hd lengths then Inl RuntimeError
         else Inr \<lparr>ps_dim = t3_size2 inp,
                   ps_steps = map (\<lambda>t. take (length (filter (\<lambda>l. int t < l) lengths))
                                            (t3_data inp ! t))
                                  [0..<nat (hd lengths)]\<rparr>)"

section \<open>Packing the image features (model.py)\<close>

text \<open>
  \<^verbatim>\<open>FullBiLSTM.create_packed_seq(self, feats, seq_lens, lookup_table)\<close>; \<open>batch_first\<close> is
  the field \<^verbatim>\<open>self.batch_first\<close>. The sequence lengths and the entries of the lookup table
  are Python integers. The method has two parts. \<open>padded_seqs\<close> is the first, the tensor
  \<^verbatim>\<open>seqs\<close> after the two nested loops ("Manually create the padded sequence"); the second
  reorders \<^verbatim>\<open>seqs\<close> and packs it.
\<close>

definition padded_seqs :: "tensor2 \<Rightarrow> int list \<Rightarrow> int list list \<Rightarrow> error + tensor3" where
  "padded_seqs feats seq_lens lookup_table =
     bindE (py_max seq_lens) (\<lambda>max_len.
     bindE (torch_zeros3 (length seq_lens) max_len (t_cols feats)) (\<lambda>seqs0.
     foldE (\<lambda>(i, seq_len) seqs1.
              bindE (py_max seq_lens) (\<lambda>max_len'.
              foldE (\<lambda>j seqs2.
                  if int j < seq_len
                  then bindE (py_index lookup_table (int i)) (\<lambda>table_row.
                       bindE (py_index table_row (int j)) (\<lambda>img.
                       bindE (py_index (t_rows feats) img) (\<lambda>v.
                       assign_row seqs2 i j v)))
                  else assign_row seqs2 i j (replicate (t_cols feats) 0))
                [0..<nat max_len'] seqs1))
            (enumerate 0 seq_lens) seqs0))"

definition create_packed_seq ::
  "bool \<Rightarrow> tensor2 \<Rightarrow> int list \<Rightarrow> int list list \<Rightarrow> error + packed_sequence" where
  "create_packed_seq batch_first feats seq_lens lookup_table =
     bindE (padded_seqs feats seq_lens lookup_table) (\<lambda>seqs.
     bindE (index_rows seqs
              (py_sorted_reverse (\<lambda>k. seq_lens ! k) [0..<length seq_lens])) (\<lambda>seqs_sorted.
     let ordered_seq_lens = py_sorted_reverse (\<lambda>l. l) seq_lens;
         seqs_final = (if \<not> batch_first then permute_1_0_2 seqs_sorted else seqs_sorted)
     in pack_padded_sequence seqs_final ordered_seq_lens batch_first))"

text \<open>
  The vocabulary of the statements about \<open>create_packed_seq\<close>. \<open>py_get\<close> reads an
  index that \<open>py_index\<close> accepts. \<open>padded_entry\<close> is the entry that the specification
  gives to row \<open>i\<close> and position \<open>j\<close> of the padded tensor, \<open>padded_rows\<close> is the padded
  tensor with these entries, and \<open>decreasing_order\<close> lists the rows by decreasing
  sequence length. \<open>valid_lookups\<close> says that the lookup table has an entry for every
  position inside a sequence, and that the entry is an index of a row of the features.
\<close>

definition py_get :: "'a list \<Rightarrow> int \<Rightarrow> 'a" where
  "py_get xs i = xs ! nat (if i < 0 then int (length xs) + i else i)"

definition padded_entry :: "tensor2 \<Rightarrow> int list \<Rightarrow> int list list \<Rightarrow> nat \<Rightarrow> nat \<Rightarrow> vec" where
  "padded_entry feats seq_lens lookup_table i j =
     (if int j < seq_lens ! i then py_get (t_rows feats) (lookup_table ! i ! j)
      else replicate (t_cols feats) 0)"

definition padded_rows :: "tensor2 \<Rightarrow> int list \<Rightarrow> int list list \<Rightarrow> vec list list" where
  "padded_rows feats seq_lens lookup_table =
     map (\<lambda>i. map (\<lambda>j. padded_entry feats seq_lens lookup_table i j)
                   [0..<nat (Max (set seq_lens))])
         [0..<length seq_lens]"

definition decreasing_order :: "int list \<Rightarrow> nat list" where
  "decreasing_order seq_lens = py_sorted_reverse (\<lambda>k. seq_lens ! k) [0..<length seq_lens]"

definition valid_lookups :: "tensor2 \<Rightarrow> int list \<Rightarrow> int list list \<Rightarrow> bool" where
  "valid_lookups feats seq_lens lookup_table =
     list_all (\<lambda>i. list_all (\<lambda>j.
         i < length lookup_table \<and> j < length (lookup_table ! i)
         \<and> - int (length (t_rows feats)) \<le> lookup_table ! i ! j
         \<and> lookup_table ! i ! j < int (length (t_rows feats)))
       [0..<nat (seq_lens ! i)]) [0..<length seq_lens]"

text \<open>
  The precondition under which \<open>create_packed_seq\<close> is meant to be called: there is a
  sequence, every sequence length is positive, the lookup table has one row for each
  sequence with at least as many entries as the sequence is long, and every entry inside
  a sequence is an index of a row of the features (a negative one counting from the end).
\<close>

definition create_packed_seq_pre :: "tensor2 \<Rightarrow> int list \<Rightarrow> int list list \<Rightarrow> bool" where
  "create_packed_seq_pre feats seq_lens lookup_table =
     (seq_lens \<noteq> [] \<and> list_all (\<lambda>l. 0 < l) seq_lens
      \<and> length lookup_table = length seq_lens
      \<and> list_all (\<lambda>i. seq_lens ! i \<le> int (length (lookup_table ! i))
            \<and> list_all (\<lambda>j. - int (length (t_rows feats)) \<le> lookup_table ! i ! j
                            \<and> lookup_table ! i ! j < int (length (t_rows feats)))
                 [0..<nat (seq_lens ! i)])
          [0..<length seq_lens])"

section \<open>The sequence losses (losses.py)\<close>

text \<open>
  The framework's \<^verbatim>\<open>pad_packed_sequence(sequence, batch_first)\<close>, from its documentation.
  \<open>padded_batch\<close> is the time-major padded tensor: at time \<open>t\<close> a sequence that is still
  running has its row of step \<open>t\<close>, a sequence that has ended has the zero vector.
  \<open>seq_lengths\<close> counts for every sequence the steps it takes part in. The batch size is
  read from the first step, which fails when there is no step. The padded tensor is
  returned batch-major when \<open>batch_first\<close> is true and time-major otherwise.
\<close>

definition padded_batch :: "packed_sequence \<Rightarrow> vec list list" where
  "padded_batch ps =
     map (\<lambda>s. map (\<lambda>b. if b < length s then s ! b else replicate (ps_dim ps) 0)
                   [0..<length (hd (ps_steps ps))])
         (ps_steps ps)"

definition seq_lengths :: "packed_sequence \<Rightarrow> nat list" where
  "seq_lengths ps =
     map (\<lambda>b. length (filter (\<lambda>s. b < length s) (ps_steps ps)))
         [0..<length (hd (ps_steps ps))]"

definition pad_packed_sequence :: "packed_sequence \<Rightarrow> bool \<Rightarrow> error + tensor3 \<times> nat list" where
  "pad_packed_sequence ps batch_first =
     (if ps_steps ps = [] then Inl IndexError
      else let padded = \<lparr>t3_size1 = length (hd (ps_steps ps)), t3_size2 = ps_dim ps,
                          t3_data = padded_batch ps\<rparr>
           in Inr (if batch_first then permute_1_0_2 padded else padded, seq_lengths ps))"

text \<open>\<^verbatim>\<open>torch.dot(a, b)\<close>: the two vectors must have the same length.\<close>

definition torch_dot :: "vec \<Rightarrow> vec \<Rightarrow> error + real" where
  "torch_dot a b =
     (if length a = length b then Inr (sum_list (map2 (*) a b)) else Inl RuntimeError)"

text \<open>
  \<^verbatim>\<open>t[i, :n, :]\<close>: the index \<open>i\<close> along the first axis must exist, the slice \<^verbatim>\<open>:n\<close> keeps
  at most \<open>n\<close> rows and never fails.
\<close>

definition index_slice :: "tensor3 \<Rightarrow> nat \<Rightarrow> nat \<Rightarrow> error + vec list" where
  "index_slice t i n = bindE (py_index (t3_data t) (int i)) (\<lambda>rows. Inr (take n rows))"

text \<open>
  \<^verbatim>\<open>torch.exp(torch.mm(h.unsqueeze(0), rows.permute(1, 0))).sum()\<close> for a vector \<open>h\<close> and
  a matrix \<open>rows\<close> with \<open>d\<close> columns: the matrix product needs \<open>h\<close> to have \<open>d\<close> entries; it
  holds the dot product of \<open>h\<close> with every row.
\<close>

definition exp_mm_sum :: "vec \<Rightarrow> nat \<Rightarrow> vec list \<Rightarrow> error + real" where
  "exp_mm_sum h d rows =
     (if length h = d then Inr (sum_list (map (\<lambda>r. exp (sum_list (map2 (*) h r))) rows))
      else Inl RuntimeError)"

text \<open>
  The normalising denominator of \<^verbatim>\<open>LSTMLosses.forward\<close>, which the source writes twice,
  for \<^verbatim>\<open>fw_denom\<close> and for \<^verbatim>\<open>bw_denom\<close>:
  \<^verbatim>\<open>torch.cat([torch.exp(torch.mm(seq_hiddens[j].unsqueeze(0), feats[k].permute(1, 0))).sum()
             for k in range(len(seq_lens))]).sum()\<close>.
\<close>

definition batch_denom :: "tensor3 \<Rightarrow> nat \<Rightarrow> vec list \<Rightarrow> nat \<Rightarrow> error + real" where
  "batch_denom feats n_seqs seq_hiddens j =
     bindE (mapE (\<lambda>k.
              bindE (py_index seq_hiddens (int j)) (\<lambda>h.
              bindE (py_index (t3_data feats) (int k)) (\<lambda>feats_k.
              exp_mm_sum h (t3_size2 feats) feats_k)))
            [0..<n_seqs]) (\<lambda>terms. Inr (sum_list terms))"

text \<open>
  The body of the loop \<^verbatim>\<open>for j in range(seq_len)\<close>: the state is the pair
  \<^verbatim>\<open>(fw_seq_loss, bw_seq_loss)\<close>.
\<close>

fun timestep_step ::
  "tensor3 \<Rightarrow> nat \<Rightarrow> vec list \<Rightarrow> vec list \<Rightarrow> vec list \<Rightarrow> vec list \<Rightarrow> nat
   \<Rightarrow> real \<times> real \<Rightarrow> error + real \<times> real" where
  "timestep_step feats n_seqs fw_seq_hiddens fw_seq_feats bw_seq_hiddens bw_seq_feats j
     (fw_seq_loss, bw_seq_loss) =
     bindE (batch_denom feats n_seqs fw_seq_hiddens j) (\<lambda>fw_denom.
     bindE (py_index fw_seq_hiddens (int j)) (\<lambda>fw_h.
     bindE (py_index fw_seq_feats (int (j + 1))) (\<lambda>fw_x.
     bindE (torch_dot fw_h fw_x) (\<lambda>fw_dot.
     let fw_prob = exp fw_dot / fw_denom
     in bindE (batch_denom feats n_seqs bw_seq_hiddens j) (\<lambda>bw_denom.
        bindE (py_index bw_seq_hiddens (int j)) (\<lambda>bw_h.
        bindE (py_index bw_seq_feats (int j)) (\<lambda>bw_x.
        bindE (torch_dot bw_h bw_x) (\<lambda>bw_dot.
        let bw_prob = exp bw_dot / bw_denom
        in Inr (fw_seq_loss + fw_prob, bw_seq_loss + bw_prob)))))))))"

text \<open>
  The body of the loop \<^verbatim>\<open>for i, seq_len in enumerate(seq_lens)\<close>: the state is the pair
  \<^verbatim>\<open>(fw_loss, bw_loss)\<close>. \<^verbatim>\<open>torch.cat\<close> appends the zero row \<^verbatim>\<open>start_stop\<close>, which has the
  width of the features.
\<close>

fun sequence_step ::
  "tensor3 \<Rightarrow> tensor3 \<Rightarrow> nat \<Rightarrow> nat \<times> nat \<Rightarrow> real \<times> real \<Rightarrow> error + real \<times> real" where
  "sequence_step feats hidden n_seqs (i, seq_len) (fw_loss, bw_loss) =
     (let start_stop = [replicate (t3_size2 feats) 0]
      in bindE (index_slice feats i seq_len) (\<lambda>seq_feats.
         let fw_seq_feats = seq_feats @ start_stop
         in bindE (index_slice hidden i seq_len) (\<lambda>seq_hiddens.
         let fw_seq_hiddens = map (take (t3_size2 hidden div 2)) seq_hiddens;
             bw_seq_feats = start_stop @ seq_feats;
             bw_seq_hiddens = map (drop (t3_size2 hidden div 2)) seq_hiddens
         in bindE (foldE (timestep_step feats n_seqs fw_seq_hiddens fw_seq_feats
                            bw_seq_hiddens bw_seq_feats)
                     [0..<seq_len] (0, 0)) (\<lambda>(fw_seq_loss, bw_seq_loss).
            Inr (fw_loss + (- ln fw_seq_loss / real seq_len),
                 bw_loss + (- ln bw_seq_loss / real seq_len))))))"

text \<open>
  \<^verbatim>\<open>LSTMLosses.forward(self, packed_feats, hidden)\<close>; \<open>batch_first\<close> is the field
  \<^verbatim>\<open>self.batch_first\<close>. The field \<^verbatim>\<open>self.cuda\<close> only moves tensors to another device. The
  final division of the zero tensor by an empty batch is the framework's NaN.
\<close>

definition LSTMLosses_forward ::
  "bool \<Rightarrow> packed_sequence \<Rightarrow> tensor3 \<Rightarrow> error + real \<times> real" where
  "LSTMLosses_forward batch_first packed_feats hidden =
     bindE (pad_packed_sequence packed_feats batch_first) (\<lambda>(feats, seq_lens).
     bindE (foldE (sequence_step feats hidden (length seq_lens)) (enumerate 0 seq_lens) (0, 0))
       (\<lambda>(fw_loss, bw_loss).
     if seq_lens = [] then Inl NotANumber
     else Inr (fw_loss / real (length seq_lens), bw_loss / real (length seq_lens))))"

text \<open>
  The formulas of the specification, over indices. \<open>x ! k ! t\<close> is the feature vector of
  sequence \<open>k\<close> at position \<open>t\<close> of the batch-major padded batch, \<open>max_len\<close> the number of
  positions and \<open>d\<close> the width of the features; \<open>h_fw ! i ! j\<close> and \<open>h_bw ! i ! j\<close> are the
  forward and the backward half of the hidden state of sequence \<open>i\<close> at position \<open>j\<close>.
  The target of the forward probability at the last position of a sequence is the zero
  stop vector, the target of the backward probability at the first position is the zero
  start vector.
\<close>

definition dotp :: "vec \<Rightarrow> vec \<Rightarrow> real" where
  "dotp a b = (\<Sum>c<length a. a ! c * b ! c)"

definition denom_formula :: "vec list list \<Rightarrow> nat \<Rightarrow> vec \<Rightarrow> real" where
  "denom_formula x max_len h = (\<Sum>k<length x. \<Sum>t<max_len. exp (dotp h (x ! k ! t)))"

definition fw_prob_formula ::
  "vec list list \<Rightarrow> nat list \<Rightarrow> nat \<Rightarrow> nat \<Rightarrow> vec list list \<Rightarrow> nat \<Rightarrow> nat \<Rightarrow> real" where
  "fw_prob_formula x lens max_len d h_fw i j =
     exp (dotp (h_fw ! i ! j) (if j + 1 < lens ! i then x ! i ! (j + 1) else replicate d 0))
     / denom_formula x max_len (h_fw ! i ! j)"

definition bw_prob_formula ::
  "vec list list \<Rightarrow> nat \<Rightarrow> nat \<Rightarrow> vec list list \<Rightarrow> nat \<Rightarrow> nat \<Rightarrow> real" where
  "bw_prob_formula x max_len d h_bw i j =
     exp (dotp (h_bw ! i ! j) (if j = 0 then replicate d 0 else x ! i ! (j - 1)))
     / denom_formula x max_len (h_bw ! i ! j)"

definition mean_seq_loss :: "(nat \<Rightarrow> nat \<Rightarrow> real) \<Rightarrow> nat list \<Rightarrow> real" where
  "mean_seq_loss prob lens =
     (\<Sum>i<length lens. - ln (\<Sum>j<lens ! i. prob i j) / real (lens ! i)) / real (length lens)"

text \<open>
  A packed sequence as the framework builds it: there is a step, the first step is not
  empty, every row has the width of the features, and the steps do not grow. A tensor of
  shape \<open>b \<times> m \<times> d\<close>.
\<close>

definition wf_packed :: "packed_sequence \<Rightarrow> bool" where
  "wf_packed ps =
     (ps_steps ps \<noteq> [] \<and> hd (ps_steps ps) \<noteq> []
      \<and> list_all (\<lambda>s. list_all (\<lambda>r. length r = ps_dim ps) s) (ps_steps ps)
      \<and> sorted (rev (map length (ps_steps ps))))"

definition has_shape3 :: "tensor3 \<Rightarrow> nat \<Rightarrow> nat \<Rightarrow> nat \<Rightarrow> bool" where
  "has_shape3 t b m d =
     (length (t3_data t) = b \<and> t3_size1 t = m \<and> t3_size2 t = d
      \<and> list_all (\<lambda>rows. length rows = m \<and> list_all (\<lambda>r. length r = d) rows) (t3_data t))"

text \<open>
  A batch for the examples: two sequences of lengths 2 and 1 whose features and hidden
  states are all zero, with feature width 1 and hidden width 2.
\<close>

definition ex_packed :: packed_sequence where
  "ex_packed = \<lparr>ps_dim = 1, ps_steps = [[[0], [0]], [[0]]]\<rparr>"

definition ex_feats :: tensor3 where
  "ex_feats = \<lparr>t3_size1 = 2, t3_size2 = 1, t3_data = [[[0], [0]], [[0], [0]]]\<rparr>"

definition ex_hidden :: tensor3 where
  "ex_hidden = \<lparr>t3_size1 = 2, t3_size2 = 2, t3_data = [[[0, 0], [0, 0]], [[0, 0], [0, 0]]]\<rparr>"

section \<open>The contrastive losses on a store\<close>

text \<open>
  To state what the two \<^verbatim>\<open>forward\<close> methods leave unchanged, the same bodies are read once
  more with the objects they touch made explicit. The state holds the field \<^verbatim>\<open>margin\<close>
  of the module and a store of tensors; a tensor is named by its address, the position in
  the store. Every operation the bodies call (\<^verbatim>\<open>F.pairwise_distance\<close>, \<^verbatim>\<open>-\<close>, \<^verbatim>\<open>*\<close>, \<^verbatim>\<open>+\<close>,
  \<^verbatim>\<open>torch.pow\<close>, \<^verbatim>\<open>torch.clamp\<close>, \<^verbatim>\<open>torch.mean\<close>) is the out-of-place form: it reads its
  arguments and returns a new tensor, here a new address at the end of the store. An
  operation that raises leaves the store as it is. An address that names no tensor of the
  expected rank makes the framework raise.
\<close>

datatype tval = Vec vec | Mat tensor2

record module_state =
  m_margin :: real
  m_heap :: "tval list"

type_synonym 'a st = "module_state \<Rightarrow> (error + 'a) \<times> module_state"

definition bindS :: "'a st \<Rightarrow> ('a \<Rightarrow> 'b st) \<Rightarrow> 'b st" where
  "bindS m f = (\<lambda>s. case m s of (Inl e, s') \<Rightarrow> (Inl e, s') | (Inr a, s') \<Rightarrow> f a s')"

definition alloc :: "tval \<Rightarrow> nat st" where
  "alloc v = (\<lambda>s. (Inr (length (m_heap s)), s\<lparr>m_heap := m_heap s @ [v]\<rparr>))"

definition read_vec :: "nat \<Rightarrow> module_state \<Rightarrow> error + vec" where
  "read_vec a s =
     (if a < length (m_heap s)
      then (case m_heap s ! a of Vec v \<Rightarrow> Inr v | Mat x \<Rightarrow> Inl RuntimeError)
      else Inl RuntimeError)"

definition read_mat :: "nat \<Rightarrow> module_state \<Rightarrow> error + tensor2" where
  "read_mat a s =
     (if a < length (m_heap s)
      then (case m_heap s ! a of Mat x \<Rightarrow> Inr x | Vec v \<Rightarrow> Inl RuntimeError)
      else Inl RuntimeError)"

definition new_vec :: "error + vec \<Rightarrow> nat st" where
  "new_vec r = (\<lambda>s. case r of Inl e \<Rightarrow> (Inl e, s) | Inr v \<Rightarrow> alloc (Vec v) s)"

definition st_pairwise_distance :: "(vec \<Rightarrow> vec \<Rightarrow> real) \<Rightarrow> nat \<Rightarrow> nat \<Rightarrow> nat st" where
  "st_pairwise_distance pdist x1 x2 =
     (\<lambda>s. new_vec (bindE (read_mat x1 s) (\<lambda>t1. bindE (read_mat x2 s) (\<lambda>t2.
             pairwise_distance pdist t1 t2))) s)"

definition st_unary :: "(vec \<Rightarrow> error + vec) \<Rightarrow> nat \<Rightarrow> nat st" where
  "st_unary f a = (\<lambda>s. new_vec (bindE (read_vec a s) f) s)"

definition st_binary :: "(vec \<Rightarrow> vec \<Rightarrow> error + vec) \<Rightarrow> nat \<Rightarrow> nat \<Rightarrow> nat st" where
  "st_binary f a b =
     (\<lambda>s. new_vec (bindE (read_vec a s) (\<lambda>u. bindE (read_vec b s) (\<lambda>v. f u v))) s)"

text \<open>\<^verbatim>\<open>torch.mean\<close> returns a tensor with the single element of the mean.\<close>

definition st_mean :: "nat \<Rightarrow> nat st" where
  "st_mean a = st_unary (\<lambda>v. bindE (torch_mean v) (\<lambda>m. Inr [m])) a"

text \<open>
  \<^verbatim>\<open>ContrastiveLoss.forward\<close> and \<^verbatim>\<open>SBContrastiveLoss.forward\<close> on the store, in the order in
  which Python evaluates the expression; the arguments are the addresses of the two
  descriptor batches and of the label vector, the result is the address of the loss.
\<close>

definition ContrastiveLoss_forward_st ::
  "(vec \<Rightarrow> vec \<Rightarrow> real) \<Rightarrow> nat \<Rightarrow> nat \<Rightarrow> nat \<Rightarrow> nat st" where
  "ContrastiveLoss_forward_st pdist output1 output2 label =
     bindS (st_pairwise_distance pdist output1 output2) (\<lambda>euclidean_distance.
     bindS (st_unary (\<lambda>v. Inr (rsub 1 v)) label) (\<lambda>one_minus_label.
     bindS (st_unary (\<lambda>v. Inr (torch_pow v 2)) euclidean_distance) (\<lambda>squared.
     bindS (st_binary (broadcast (*)) one_minus_label squared) (\<lambda>similar.
     bindS (\<lambda>s. st_unary (\<lambda>v. Inr (rsub (m_margin s) v)) euclidean_distance s) (\<lambda>gap.
     bindS (st_unary (\<lambda>v. Inr (torch_clamp_min v 0)) gap) (\<lambda>clamped.
     bindS (st_unary (\<lambda>v. Inr (torch_pow v 2)) clamped) (\<lambda>clamped_squared.
     bindS (st_binary (broadcast (*)) label clamped_squared) (\<lambda>dissimilar.
     bindS (st_binary (broadcast (+)) similar dissimilar) (\<lambda>total.
     st_mean total)))))))))"

definition SBContrastiveLoss_forward_st ::
  "(vec \<Rightarrow> vec \<Rightarrow> real) \<Rightarrow> nat \<Rightarrow> nat \<Rightarrow> nat \<Rightarrow> nat st" where
  "SBContrastiveLoss_forward_st pdist desc1 desc2 label =
     bindS (st_pairwise_distance pdist desc1 desc2) (\<lambda>euclidean_distance.
     bindS (st_unary (\<lambda>v. Inr (rsub 1 v)) label) (\<lambda>one_minus_label.
     bindS (st_unary (\<lambda>v. Inr (torch_pow v 2)) euclidean_distance) (\<lambda>squared.
     bindS (st_binary (broadcast (*)) one_minus_label squared) (\<lambda>similar.
     bindS (\<lambda>s. st_unary (\<lambda>v. Inr (rsub (m_margin s) v)) euclidean_distance s) (\<lambda>gap.
     bindS (st_unary (\<lambda>v. Inr (torch_clamp_min v 0)) gap) (\<lambda>clamped.
     bindS (st_unary (\<lambda>v. Inr (torch_pow v 2)) clamped) (\<lambda>clamped_squared.
     bindS (st_binary (broadcast (*)) label clamped_squared) (\<lambda>dissimilar.
     bindS (st_binary (broadcast (+)) similar dissimilar) (\<lambda>total.
     st_mean total)))))))))"

text \<open>
  An operation preserves the state when it leaves the margin and every tensor that was in
  the store before the call as they were.
\<close>

definition preserves :: "'a st \<Rightarrow> bool" where
  "preserves m = (\<forall>s. m_margin (snd (m s)) = m_margin s
                     \<and> take (length (m_heap s)) (m_heap (snd (m s))) = m_heap s)"

text \<open>A state for the examples: margin 2, two descriptor batches and a label vector.\<close>

definition ex_state :: module_state where
  "ex_state = \<lparr>m_margin = 2,
               m_heap = [Mat \<lparr>t_cols = 1, t_rows = [[0], [3]]\<rparr>,
                         Mat \<lparr>t_cols = 1, t_rows = [[0], [4]]\<rparr>, Vec [0, 1]]\<rparr>"

section \<open>Properties of the contrastive losses\<close>

lemma sum_list_map2_nth:
  "length xs = length ys \<Longrightarrow>
   sum_list (map2 f xs ys) = (\<Sum>i<length xs. f (xs ! i) (ys ! i))"
proof -
  assume len: "length xs = length ys"
  have "map2 f xs ys = map (\<lambda>i. f (xs ! i) (ys ! i)) [0..<length xs]"
    using len by (intro nth_equalityI) simp_all
  then show ?thesis
    by (simp add: sum_list_sum_nth atLeast0LessThan)
qed

text \<open>
  C8: the two loss classes are the same function: for every distance, margin, pair of
  descriptor batches and label vector, \<^verbatim>\<open>SBContrastiveLoss(margin).forward\<close> returns
  what \<^verbatim>\<open>ContrastiveLoss(margin).forward\<close> returns (a value or the same failure).
\<close>

theorem SBContrastiveLoss_eq_ContrastiveLoss:
  "SBContrastiveLoss_forward pdist margin desc1 desc2 label
   = ContrastiveLoss_forward pdist margin desc1 desc2 label"
  unfolding SBContrastiveLoss_forward_def ContrastiveLoss_forward_def ..

text \<open>
  C4: for two descriptor batches of the same shape with at least one row and a label
  vector with one label for each pair, \<^verbatim>\<open>ContrastiveLoss.forward\<close> returns the mean over
  the pairs of \<open>(1 - label) * d\<^sup>2 + label * (max 0 (margin - d))\<^sup>2\<close>, where \<open>d\<close> is the
  pairwise distance of the two descriptors of the pair.
\<close>

theorem ContrastiveLoss_forward_formula:
  assumes shape: "length (t_rows output1) = length (t_rows output2)"
                 "t_cols output1 = t_cols output2"
    and lab: "length label = length (t_rows output1)"
    and ne: "t_rows output1 \<noteq> []"
  shows "ContrastiveLoss_forward pdist margin output1 output2 label
         = Inr (contrastive_formula margin
                  (\<lambda>i. pdist (t_rows output1 ! i) (t_rows output2 ! i)) label
                  (length (t_rows output1)))"
proof -
  let ?n = "length (t_rows output1)"
  let ?d = "map2 pdist (t_rows output1) (t_rows output2)"
  let ?a = "map2 (*) (rsub 1 label) (torch_pow ?d 2)"
  let ?b = "map2 (*) label (torch_pow (torch_clamp_min (rsub margin ?d) 0) 2)"
  have ld: "length ?d = ?n" using shape by simp
  have pd: "pairwise_distance pdist output1 output2 = Inr ?d"
    using shape by (simp add: pairwise_distance_def)
  have a: "broadcast (*) (rsub 1 label) (torch_pow ?d 2) = Inr ?a"
    using lab ld by (simp add: broadcast_def rsub_def torch_pow_def)
  have b: "broadcast (*) label (torch_pow (torch_clamp_min (rsub margin ?d) 0) 2) = Inr ?b"
    using lab ld by (simp add: broadcast_def rsub_def torch_pow_def torch_clamp_min_def)
  have la: "length ?a = ?n" and lb: "length ?b = ?n"
    using lab ld by (simp_all add: rsub_def torch_pow_def torch_clamp_min_def)
  have s: "broadcast (+) ?a ?b = Inr (map2 (+) ?a ?b)"
    using la lb by (simp add: broadcast_def)
  have ls: "length (map2 (+) ?a ?b) = ?n" using la lb by simp
  have nes: "map2 (+) ?a ?b \<noteq> []" using ls ne by (metis length_0_conv)
  have run: "ContrastiveLoss_forward pdist margin output1 output2 label
             = Inr (sum_list (map2 (+) ?a ?b) / real ?n)"
    unfolding ContrastiveLoss_forward_def pd bindE_def sum.case a b s torch_mean_def
    using nes ls by simp
  have nth: "map2 (+) ?a ?b ! i
             = (1 - label ! i) * (pdist (t_rows output1 ! i) (t_rows output2 ! i))\<^sup>2
               + label ! i * (max 0 (margin - pdist (t_rows output1 ! i) (t_rows output2 ! i)))\<^sup>2"
    if "i < ?n" for i
    using that lab shape by (simp add: rsub_def torch_pow_def torch_clamp_min_def)
  have "sum_list (map2 (+) ?a ?b) = (\<Sum>i<?n. map2 (+) ?a ?b ! i)"
    using ls by (simp add: sum_list_sum_nth atLeast0LessThan)
  also have "\<dots> = (\<Sum>i<?n. (1 - label ! i) * (pdist (t_rows output1 ! i) (t_rows output2 ! i))\<^sup>2
               + label ! i * (max 0 (margin - pdist (t_rows output1 ! i) (t_rows output2 ! i)))\<^sup>2)"
    by (rule sum.cong) (simp_all add: nth)
  finally show ?thesis
    unfolding run contrastive_formula_def by simp
qed

text \<open>
  The theorem at two pairs of one-dimensional descriptors, the first pair labelled 0 and
  at distance 0, the second labelled 1 and at distance 1 with margin 2: the loss is
  \<open>(0 + 1) / 2\<close>.
\<close>

theorem ContrastiveLoss_forward_formula_witness:
  "ContrastiveLoss_forward euclidean 2
     \<lparr>t_cols = 1, t_rows = [[0], [3]]\<rparr> \<lparr>t_cols = 1, t_rows = [[0], [4]]\<rparr> [0, 1]
   = Inr (contrastive_formula 2 (\<lambda>i. euclidean ([[0], [3]] ! i) ([[0], [4]] ! i)) [0, 1] 2)
   \<and> contrastive_formula 2 (\<lambda>i. euclidean ([[0], [3]] ! i) ([[0], [4]] ! i)) [0, 1] 2 = 1 / 2"
  using ContrastiveLoss_forward_formula
          [of "\<lparr>t_cols = 1, t_rows = [[0], [3]]\<rparr>" "\<lparr>t_cols = 1, t_rows = [[0], [4]]\<rparr>"
              "[0, 1]" euclidean 2]
  by (simp add: contrastive_formula_def euclidean_def lessThan_Suc numeral_2_eq_2)

text \<open>
  C1: the docstring of \<^verbatim>\<open>SBContrastiveLoss.forward\<close> promises the stochastic bidirectional
  contrastive loss, the sum of the hinge terms \<open>max 0 (m - d f v + d f v_k)\<close> over both
  branches. The body computes the pairwise contrastive loss instead. For the descriptor
  batches \<open>[[0], [3]]\<close> and \<open>[[0], [3]]\<close> (two matching pairs at distance 0, the
  non-matching descriptors at distance 3), labels \<open>[1, 1]\<close> and margin 2 the method
  returns 4, while the promised formula gives 20.
\<close>

theorem SBContrastiveLoss_forward_not_bidirectional:
  "SBContrastiveLoss_forward euclidean 2
     \<lparr>t_cols = 1, t_rows = [[0], [3]]\<rparr> \<lparr>t_cols = 1, t_rows = [[0], [3]]\<rparr> [1, 1] = Inr 4
   \<and> sb_contrastive_formula euclidean 2
     \<lparr>t_cols = 1, t_rows = [[0], [3]]\<rparr> \<lparr>t_cols = 1, t_rows = [[0], [3]]\<rparr> = 20"
proof
  show "SBContrastiveLoss_forward euclidean 2
     \<lparr>t_cols = 1, t_rows = [[0], [3]]\<rparr> \<lparr>t_cols = 1, t_rows = [[0], [3]]\<rparr> [1, 1] = Inr 4"
    by (simp add: SBContrastiveLoss_forward_def pairwise_distance_def bindE_def broadcast_def
        rsub_def torch_pow_def torch_clamp_min_def torch_mean_def euclidean_def)
  show "sb_contrastive_formula euclidean 2
     \<lparr>t_cols = 1, t_rows = [[0], [3]]\<rparr> \<lparr>t_cols = 1, t_rows = [[0], [3]]\<rparr> = 20"
    by (simp add: sb_contrastive_formula_def sb_hinge_sum_def euclidean_def upt_rec)
qed

section \<open>Properties of the packing\<close>

lemma bindE_Inr [simp]: "bindE (Inr v) f = f v"
  by (simp add: bindE_def)

lemma bindE_Inl [simp]: "bindE (Inl e) f = Inl e"
  by (simp add: bindE_def)

lemma foldE_cong:
  "(\<And>x s. x \<in> set xs \<Longrightarrow> f x s = g x s) \<Longrightarrow> foldE f xs s = foldE g xs s"
  by (induction xs arbitrary: s) (simp_all add: bindE_def split: sum.splits)

lemma foldE_append: "foldE f (xs @ ys) s = bindE (foldE f xs s) (foldE f ys)"
  by (induction xs arbitrary: s) (simp_all add: bindE_def split: sum.splits)

lemma mapE_all_Inr:
  "(\<And>x. x \<in> set xs \<Longrightarrow> f x = Inr (g x)) \<Longrightarrow> mapE f xs = Inr (map g xs)"
  by (induction xs) simp_all

lemma py_index_nat: "i < length xs \<Longrightarrow> py_index xs (int i) = Inr (xs ! i)"
  by (simp add: py_index_def)

lemma py_get_nat: "py_get xs (int i) = xs ! i"
  by (simp add: py_get_def)

lemma py_index_valid:
  "- int (length xs) \<le> i \<Longrightarrow> i < int (length xs) \<Longrightarrow> py_index xs i = Inr (py_get xs i)"
  by (auto simp: py_index_def py_get_def Let_def)

lemma fill_row:
  assumes "i < length (t3_data s)" "length (t3_data s ! i) = t3_size1 s" "n \<le> t3_size1 s"
  shows "foldE (\<lambda>j s'. assign_row s' i j (c j)) [0..<n] s
         = Inr (s\<lparr>t3_data := (t3_data s)[i := map c [0..<n] @ drop n (t3_data s ! i)]\<rparr>)"
  using assms(3)
proof (induction n)
  case 0
  then show ?case by simp
next
  case (Suc n)
  let ?s = "s\<lparr>t3_data := (t3_data s)[i := map c [0..<n] @ drop n (t3_data s ! i)]\<rparr>"
  have run: "foldE (\<lambda>j s'. assign_row s' i j (c j)) [0..<n] s = Inr ?s"
    using Suc by simp
  have n: "n < t3_size1 s" using Suc.prems by simp
  have upd: "(map c [0..<n] @ drop n (t3_data s ! i))[n := c n]
             = map c [0..<Suc n] @ drop (Suc n) (t3_data s ! i)"
  proof -
    have "drop n (t3_data s ! i) = (t3_data s ! i) ! n # drop (Suc n) (t3_data s ! i)"
      using n assms(2) by (simp add: Cons_nth_drop_Suc)
    then show ?thesis by (simp add: list_update_append)
  qed
  have "assign_row ?s i n (c n)
        = Inr (s\<lparr>t3_data := (t3_data s)[i := map c [0..<Suc n] @ drop (Suc n) (t3_data s ! i)]\<rparr>)"
    using assms(1) n upd by (simp add: assign_row_def)
  then show ?case
    using run by (simp add: foldE_append del: upt_Suc add: upt_Suc_append)
qed

lemma fill_rows:
  assumes "\<forall>r\<in>set (t3_data s). length r = t3_size1 s" "n \<le> length (t3_data s)"
  shows "foldE (\<lambda>i s1. foldE (\<lambda>j s2. assign_row s2 i j (c i j)) [0..<t3_size1 s] s1) [0..<n] s
         = Inr (s\<lparr>t3_data := map (\<lambda>i. map (c i) [0..<t3_size1 s]) [0..<n]
                                @ drop n (t3_data s)\<rparr>)"
  using assms(2)
proof (induction n)
  case 0
  then show ?case by simp
next
  case (Suc n)
  let ?m = "t3_size1 s"
  let ?s = "s\<lparr>t3_data := map (\<lambda>i. map (c i) [0..<?m]) [0..<n] @ drop n (t3_data s)\<rparr>"
  have run: "foldE (\<lambda>i s1. foldE (\<lambda>j s2. assign_row s2 i j (c i j)) [0..<?m] s1) [0..<n] s
             = Inr ?s"
    using Suc by simp
  have n: "n < length (t3_data s)" using Suc.prems by simp
  have dr: "drop n (t3_data s) = t3_data s ! n # drop (Suc n) (t3_data s)"
    using n by (simp add: Cons_nth_drop_Suc)
  have nth: "t3_data ?s ! n = t3_data s ! n"
    using n by (simp add: nth_append)
  have len: "length (t3_data ?s ! n) = t3_size1 ?s"
    using assms(1) n nth by simp
  have "foldE (\<lambda>j s2. assign_row s2 n j (c n j)) [0..<t3_size1 ?s] ?s
        = Inr (?s\<lparr>t3_data := (t3_data ?s)[n := map (c n) [0..<t3_size1 ?s]
                                               @ drop (t3_size1 ?s) (t3_data ?s ! n)]\<rparr>)"
    by (rule fill_row) (use n len in simp_all)
  also have "(t3_data ?s)[n := map (c n) [0..<t3_size1 ?s] @ drop (t3_size1 ?s) (t3_data ?s ! n)]
             = map (\<lambda>i. map (c i) [0..<?m]) [0..<Suc n] @ drop (Suc n) (t3_data s)"
    using len by (simp add: dr list_update_append)
  finally have step: "foldE (\<lambda>j s2. assign_row s2 n j (c n j)) [0..<?m] ?s
        = Inr (s\<lparr>t3_data := map (\<lambda>i. map (c i) [0..<?m]) [0..<Suc n]
                               @ drop (Suc n) (t3_data s)\<rparr>)"
    by simp
  show ?case
    using run step by (simp add: foldE_append del: upt_Suc add: upt_Suc_append)
qed

lemma foldE_map: "foldE f (map g xs) s = foldE (\<lambda>x. f (g x)) xs s"
  by (induction xs arbitrary: s) (simp_all add: bindE_def split: sum.splits)

lemma enumerate_nth: "enumerate 0 xs = map (\<lambda>i. (i, xs ! i)) [0..<length xs]"
  by (rule nth_equalityI) (simp_all add: nth_enumerate_eq)

lemma valid_lookupsD:
  assumes "valid_lookups feats seq_lens lookup_table" "i < length seq_lens"
    "int j < seq_lens ! i"
  shows "i < length lookup_table" "j < length (lookup_table ! i)"
    "- int (length (t_rows feats)) \<le> lookup_table ! i ! j"
    "lookup_table ! i ! j < int (length (t_rows feats))"
proof -
  have "j \<in> set [0..<nat (seq_lens ! i)]" using assms(3) by simp
  then show "i < length lookup_table" "j < length (lookup_table ! i)"
    "- int (length (t_rows feats)) \<le> lookup_table ! i ! j"
    "lookup_table ! i ! j < int (length (t_rows feats))"
    using assms(1,2) unfolding valid_lookups_def list_all_iff by auto
qed

lemma padded_seqs_run:
  assumes ne: "seq_lens \<noteq> []" and m0: "0 \<le> Max (set seq_lens)"
    and val: "valid_lookups feats seq_lens lookup_table"
  shows "padded_seqs feats seq_lens lookup_table
         = Inr \<lparr>t3_size1 = nat (Max (set seq_lens)), t3_size2 = t_cols feats,
                t3_data = padded_rows feats seq_lens lookup_table\<rparr>"
proof -
  let ?B = "length seq_lens"
  let ?M = "Max (set seq_lens)"
  let ?m = "nat ?M"
  let ?D = "t_cols feats"
  let ?c = "padded_entry feats seq_lens lookup_table"
  let ?s0 = "\<lparr>t3_size1 = ?m, t3_size2 = ?D,
              t3_data = replicate ?B (replicate ?m (replicate ?D 0))\<rparr>"
  have mx: "py_max seq_lens = Inr ?M" using ne by (simp add: py_max_def)
  have z: "torch_zeros3 ?B ?M ?D = Inr ?s0" using m0 by (simp add: torch_zeros3_def)
  have inner: "(if int j < seq_lens ! i
                 then bindE (py_index lookup_table (int i)) (\<lambda>table_row.
                      bindE (py_index table_row (int j)) (\<lambda>img.
                      bindE (py_index (t_rows feats) img) (\<lambda>v.
                      assign_row s2 i j v)))
                 else assign_row s2 i j (replicate ?D 0))
               = assign_row s2 i j (?c i j)" if "i < ?B" for i j s2
  proof (cases "int j < seq_lens ! i")
    case True
    note v = valid_lookupsD[OF val that True]
    show ?thesis
      using True v by (simp add: py_index_nat py_index_valid py_get_nat padded_entry_def)
  next
    case False
    then show ?thesis by (simp add: padded_entry_def)
  qed
  have loop: "foldE (\<lambda>(i, seq_len) seqs1.
              foldE (\<lambda>j seqs2.
                  if int j < seq_len
                  then bindE (py_index lookup_table (int i)) (\<lambda>table_row.
                       bindE (py_index table_row (int j)) (\<lambda>img.
                       bindE (py_index (t_rows feats) img) (\<lambda>v.
                       assign_row seqs2 i j v)))
                  else assign_row seqs2 i j (replicate (t_cols feats) 0))
                [0..<?m] seqs1)
            (enumerate 0 seq_lens) ?s0
        = foldE (\<lambda>i s1. foldE (\<lambda>j s2. assign_row s2 i j (?c i j)) [0..<t3_size1 ?s0] s1)
            [0..<?B] ?s0"
    unfolding enumerate_nth foldE_map
    by (intro foldE_cong) (simp add: inner)
  also have "\<dots> = Inr (?s0\<lparr>t3_data := map (\<lambda>i. map (?c i) [0..<t3_size1 ?s0]) [0..<?B]
                                @ drop ?B (t3_data ?s0)\<rparr>)"
    by (rule fill_rows) simp_all
  also have "\<dots> = Inr \<lparr>t3_size1 = ?m, t3_size2 = ?D,
                        t3_data = padded_rows feats seq_lens lookup_table\<rparr>"
    by (simp add: padded_rows_def)
  finally have filled: "foldE (\<lambda>(i, seq_len) seqs1.
              foldE (\<lambda>j seqs2.
                  if int j < seq_len
                  then bindE (py_index lookup_table (int i)) (\<lambda>table_row.
                       bindE (py_index table_row (int j)) (\<lambda>img.
                       bindE (py_index (t_rows feats) img) (\<lambda>v.
                       assign_row seqs2 i j v)))
                  else assign_row seqs2 i j (replicate (t_cols feats) 0))
                [0..<?m] seqs1)
            (enumerate 0 seq_lens) ?s0
        = Inr \<lparr>t3_size1 = ?m, t3_size2 = ?D,
               t3_data = padded_rows feats seq_lens lookup_table\<rparr>" .
  show ?thesis
    unfolding padded_seqs_def mx bindE_Inr z filled ..
qed

lemma create_packed_seq_run:
  assumes ne: "seq_lens \<noteq> []" and m0: "0 \<le> Max (set seq_lens)"
    and val: "valid_lookups feats seq_lens lookup_table"
  shows "create_packed_seq batch_first feats seq_lens lookup_table
         = pack_padded_sequence
             ((if batch_first then (\<lambda>t. t) else permute_1_0_2)
                \<lparr>t3_size1 = nat (Max (set seq_lens)), t3_size2 = t_cols feats,
                 t3_data = map (\<lambda>k. padded_rows feats seq_lens lookup_table ! k)
                               (decreasing_order seq_lens)\<rparr>)
             (py_sorted_reverse (\<lambda>l. l) seq_lens) batch_first"
proof -
  let ?B = "length seq_lens"
  let ?m = "nat (Max (set seq_lens))"
  let ?D = "t_cols feats"
  have ord: "k < ?B" if "k \<in> set (decreasing_order seq_lens)" for k
    using that by (simp add: decreasing_order_def py_sorted_reverse_def)
  have sel: "index_rows \<lparr>t3_size1 = ?m, t3_size2 = ?D,
                         t3_data = padded_rows feats seq_lens lookup_table\<rparr>
               (py_sorted_reverse (\<lambda>k. seq_lens ! k) [0..<?B])
             = Inr \<lparr>t3_size1 = ?m, t3_size2 = ?D,
                 t3_data = map (\<lambda>k. padded_rows feats seq_lens lookup_table ! k)
                               (decreasing_order seq_lens)\<rparr>"
  proof -
    have "mapE (\<lambda>k. py_index (padded_rows feats seq_lens lookup_table) (int k))
            (decreasing_order seq_lens)
          = Inr (map (\<lambda>k. padded_rows feats seq_lens lookup_table ! k)
                     (decreasing_order seq_lens))"
      by (rule mapE_all_Inr) (simp add: py_index_nat ord padded_rows_def)
    then show ?thesis
      by (simp add: index_rows_def decreasing_order_def)
  qed
  show ?thesis
    unfolding create_packed_seq_def padded_seqs_run[OF ne m0 val] bindE_Inr sel
    by (simp add: Let_def)
qed

lemma map_insort_key: "map f (insort_key (\<lambda>x. g (f x)) x xs) = insort_key g (f x) (map f xs)"
  by (induction xs) simp_all

lemma map_sort_key: "map f (sort_key (\<lambda>x. g (f x)) xs) = sort_key g (map f xs)"
  by (induction xs) (simp_all add: map_insort_key)

lemma decreasing_order_lengths:
  "map (\<lambda>k. seq_lens ! k) (decreasing_order seq_lens) = py_sorted_reverse (\<lambda>l. l) seq_lens"
  unfolding decreasing_order_def py_sorted_reverse_def
  by (simp add: map_sort_key map_nth)

lemma sorted_uminus_rev: "sorted (map uminus xs) \<Longrightarrow> sorted (rev (xs :: int list))"
  by (induction xs) (auto simp: sorted_append)

lemma py_sorted_reverse_decreasing: "sorted (rev (py_sorted_reverse (\<lambda>l. l) seq_lens))"
  unfolding py_sorted_reverse_def by (rule sorted_uminus_rev) (rule sorted_sort_key)

lemma decreasing_order_permutation:
  "distinct (decreasing_order seq_lens)"
  "set (decreasing_order seq_lens) = {0..<length seq_lens}"
  "length (decreasing_order seq_lens) = length seq_lens"
  by (simp_all add: decreasing_order_def py_sorted_reverse_def)

lemma hd_py_sorted_reverse:
  assumes "seq_lens \<noteq> []"
  shows "hd (py_sorted_reverse (\<lambda>l. l) seq_lens) = Max (set seq_lens)"
proof -
  let ?xs = "py_sorted_reverse (\<lambda>l. l) seq_lens"
  have set: "set ?xs = set seq_lens" by (simp add: py_sorted_reverse_def)
  have srt: "sorted (map uminus ?xs)"
    unfolding py_sorted_reverse_def by (rule sorted_sort_key)
  have ne: "?xs \<noteq> []" using assms set by fastforce
  then obtain x rest where xs: "?xs = x # rest" by (cases ?xs) auto
  have "\<forall>y\<in>set ?xs. y \<le> x" using srt unfolding xs by auto
  then have "Max (set ?xs) = x" unfolding xs by (intro Max_eqI) auto
  then show ?thesis using set xs by simp
qed

lemma pack_padded_sequence_ok:
  assumes "lengths \<noteq> []" "\<forall>l\<in>set lengths. 0 < l" "sorted (rev lengths)"
    "length lengths = length (t3_data x)" "hd lengths \<le> int (t3_size1 x)"
  shows "pack_padded_sequence ((if batch_first then (\<lambda>t. t) else permute_1_0_2) x)
           lengths batch_first
         = Inr \<lparr>ps_dim = t3_size2 x,
                ps_steps = map (\<lambda>t. take (length (filter (\<lambda>l. int t < l) lengths))
                                         (map (\<lambda>i. t3_data x ! i ! t) [0..<length (t3_data x)]))
                               [0..<nat (hd lengths)]\<rparr>"
proof -
  have inp: "(if batch_first then permute_1_0_2 ((if batch_first then (\<lambda>t. t) else permute_1_0_2) x)
              else (if batch_first then (\<lambda>t. t) else permute_1_0_2) x) = permute_1_0_2 x"
    by simp
  have lpos: "\<not> last lengths \<le> 0" using assms(1,2) last_in_set[of lengths] by fastforce
  have steps: "map (\<lambda>t. take (length (filter (\<lambda>l. int t < l) lengths))
                          (t3_data (permute_1_0_2 x) ! t)) [0..<nat (hd lengths)]
        = map (\<lambda>t. take (length (filter (\<lambda>l. int t < l) lengths))
                         (map (\<lambda>i. t3_data x ! i ! t) [0..<length (t3_data x)]))
              [0..<nat (hd lengths)]"
    using assms(5) by (intro map_cong) (auto simp: permute_1_0_2_def)
  have sz: "t3_size1 (permute_1_0_2 x) = length (t3_data x)"
    "length (t3_data (permute_1_0_2 x)) = t3_size1 x"
    "t3_size2 (permute_1_0_2 x) = t3_size2 x"
    by (simp_all add: permute_1_0_2_def)
  show ?thesis
    unfolding pack_padded_sequence_def Let_def inp steps
    using assms lpos by (simp add: sz)
qed

text \<open>
  C3: when there is a sequence, the longest length is not negative and the lookup table
  is valid, \<open>create_packed_seq\<close> pads, reorders and packs. Its loops end with a padded
  tensor \<open>seqs\<close> with one row for each sequence and one position for each step up to the
  longest length; row \<open>i\<close> holds at position \<open>j\<close> the feature row
  \<open>feats[lookup_table[i][j]]\<close> when \<open>j < seq_lens[i]\<close> and the zero vector otherwise. The
  rows of \<open>seqs\<close> are reordered by \<open>decreasing_order\<close>, a permutation of the row indices
  along which the sequence lengths decrease. The reordered tensor is handed to
  \<open>pack_padded_sequence\<close> together with the lengths in the same order, after the exchange
  of its first two axes when \<open>batch_first\<close> is false.
\<close>

theorem create_packed_seq_pads_sorts_packs:
  assumes ne: "seq_lens \<noteq> []" and m0: "0 \<le> Max (set seq_lens)"
    and val: "valid_lookups feats seq_lens lookup_table"
  shows "(\<exists>seqs. padded_seqs feats seq_lens lookup_table = Inr seqs
            \<and> length (t3_data seqs) = length seq_lens
            \<and> t3_size1 seqs = nat (Max (set seq_lens))
            \<and> t3_size2 seqs = t_cols feats
            \<and> (\<forall>i<length seq_lens.
                  length (t3_data seqs ! i) = nat (Max (set seq_lens))
                  \<and> (\<forall>j<nat (Max (set seq_lens)).
                        t3_data seqs ! i ! j
                        = (if int j < seq_lens ! i
                           then py_get (t_rows feats) (lookup_table ! i ! j)
                           else replicate (t_cols feats) 0)))
            \<and> create_packed_seq batch_first feats seq_lens lookup_table
              = pack_padded_sequence
                  ((if batch_first then (\<lambda>t. t) else permute_1_0_2)
                     (seqs\<lparr>t3_data := map (\<lambda>k. t3_data seqs ! k)
                                           (decreasing_order seq_lens)\<rparr>))
                  (map (\<lambda>k. seq_lens ! k) (decreasing_order seq_lens)) batch_first)
       \<and> distinct (decreasing_order seq_lens)
       \<and> set (decreasing_order seq_lens) = {0..<length seq_lens}
       \<and> sorted (rev (map (\<lambda>k. seq_lens ! k) (decreasing_order seq_lens)))"
proof (intro conjI)
  let ?m = "nat (Max (set seq_lens))"
  let ?seqs = "\<lparr>t3_size1 = ?m, t3_size2 = t_cols feats,
                t3_data = padded_rows feats seq_lens lookup_table\<rparr>"
  have pad: "padded_seqs feats seq_lens lookup_table = Inr ?seqs"
    by (rule padded_seqs_run[OF ne m0 val])
  have len: "length (t3_data ?seqs) = length seq_lens"
    by (simp add: padded_rows_def)
  have row: "length (t3_data ?seqs ! i) = ?m" if "i < length seq_lens" for i
    using that by (simp add: padded_rows_def)
  have entry: "t3_data ?seqs ! i ! j
               = (if int j < seq_lens ! i then py_get (t_rows feats) (lookup_table ! i ! j)
                  else replicate (t_cols feats) 0)"
    if "i < length seq_lens" "j < ?m" for i j
    using that by (simp add: padded_rows_def padded_entry_def)
  have run: "create_packed_seq batch_first feats seq_lens lookup_table
              = pack_padded_sequence
                  ((if batch_first then (\<lambda>t. t) else permute_1_0_2)
                     (?seqs\<lparr>t3_data := map (\<lambda>k. t3_data ?seqs ! k)
                                            (decreasing_order seq_lens)\<rparr>))
                  (map (\<lambda>k. seq_lens ! k) (decreasing_order seq_lens)) batch_first"
    unfolding decreasing_order_lengths
    using create_packed_seq_run[OF ne m0 val, of batch_first] by simp
  show "\<exists>seqs. padded_seqs feats seq_lens lookup_table = Inr seqs
            \<and> length (t3_data seqs) = length seq_lens
            \<and> t3_size1 seqs = nat (Max (set seq_lens))
            \<and> t3_size2 seqs = t_cols feats
            \<and> (\<forall>i<length seq_lens.
                  length (t3_data seqs ! i) = nat (Max (set seq_lens))
                  \<and> (\<forall>j<nat (Max (set seq_lens)).
                        t3_data seqs ! i ! j
                        = (if int j < seq_lens ! i
                           then py_get (t_rows feats) (lookup_table ! i ! j)
                           else replicate (t_cols feats) 0)))
            \<and> create_packed_seq batch_first feats seq_lens lookup_table
              = pack_padded_sequence
                  ((if batch_first then (\<lambda>t. t) else permute_1_0_2)
                     (seqs\<lparr>t3_data := map (\<lambda>k. t3_data seqs ! k)
                                           (decreasing_order seq_lens)\<rparr>))
                  (map (\<lambda>k. seq_lens ! k) (decreasing_order seq_lens)) batch_first"
  proof (intro exI[of _ ?seqs] conjI allI impI)
    show "padded_seqs feats seq_lens lookup_table = Inr ?seqs" by (rule pad)
    show "length (t3_data ?seqs) = length seq_lens" by (rule len)
    show "t3_size1 ?seqs = ?m" by simp
    show "t3_size2 ?seqs = t_cols feats" by simp
    show "length (t3_data ?seqs ! i) = ?m" if "i < length seq_lens" for i
      by (rule row[OF that])
    show "t3_data ?seqs ! i ! j
          = (if int j < seq_lens ! i then py_get (t_rows feats) (lookup_table ! i ! j)
             else replicate (t_cols feats) 0)"
      if "i < length seq_lens" "j < ?m" for i j
      by (rule entry[OF that])
    show "create_packed_seq batch_first feats seq_lens lookup_table
              = pack_padded_sequence
                  ((if batch_first then (\<lambda>t. t) else permute_1_0_2)
                     (?seqs\<lparr>t3_data := map (\<lambda>k. t3_data ?seqs ! k)
                                            (decreasing_order seq_lens)\<rparr>))
                  (map (\<lambda>k. seq_lens ! k) (decreasing_order seq_lens)) batch_first"
      by (rule run)
  qed
  show "distinct (decreasing_order seq_lens)"
    by (rule decreasing_order_permutation)
  show "set (decreasing_order seq_lens) = {0..<length seq_lens}"
    by (rule decreasing_order_permutation)
  show "sorted (rev (map (\<lambda>k. seq_lens ! k) (decreasing_order seq_lens)))"
    unfolding decreasing_order_lengths by (rule py_sorted_reverse_decreasing)
qed

lemma decreasing_order_example: "decreasing_order [1,2] = [1,0]"
  by (simp add: decreasing_order_def py_sorted_reverse_def upt_rec)

lemma padded_rows_example: "padded_rows \<lparr>t_cols = 2, t_rows = [[1,2],[3,4],[5,6]]\<rparr> [1,2] [[0],[2,1]] = [[[1,2],[0,0]],[[5,6],[3,4]]]"
  by (simp add: padded_rows_def padded_entry_def py_get_def upt_rec numeral_2_eq_2)

text \<open>
  The theorem at three feature rows and two sequences of lengths 1 and 2, time-major:
  the padded tensor holds the zero vector at the second position of the shorter
  sequence; in the packed result the longer sequence comes first, and the second step
  holds its second row only.
\<close>

theorem create_packed_seq_pads_sorts_packs_witness:
  "padded_seqs \<lparr>t_cols = 2, t_rows = [[1,2],[3,4],[5,6]]\<rparr> [1,2] [[0],[2,1]]
   = Inr \<lparr>t3_size1 = 2, t3_size2 = 2, t3_data = [[[1,2],[0,0]],[[5,6],[3,4]]]\<rparr>
   \<and> create_packed_seq False \<lparr>t_cols = 2, t_rows = [[1,2],[3,4],[5,6]]\<rparr> [1,2] [[0],[2,1]]
   = Inr \<lparr>ps_dim = 2, ps_steps = [[[5,6],[1,2]],[[3,4]]]\<rparr>"
proof -
  let ?feats = "\<lparr>t_cols = 2, t_rows = [[1,2],[3,4],[5,6]]\<rparr>"
  let ?x = "\<lparr>t3_size1 = 2, t3_size2 = 2, t3_data = [[[1,2],[0,0]],[[5,6],[3,4 :: real]]]\<rparr>"
  have h1: "[1, 2 :: int] \<noteq> []" by simp
  have h2: "0 \<le> Max (set [1, 2 :: int])" by simp
  have h3: "valid_lookups ?feats [1,2] [[0],[2,1]]"
    by (simp add: valid_lookups_def upt_rec numeral_2_eq_2)
  have pad: "padded_seqs ?feats [1,2] [[0],[2,1]] = Inr ?x"
    unfolding padded_seqs_run[OF h1 h2 h3] padded_rows_example by simp
  from create_packed_seq_pads_sorts_packs[OF h1 h2 h3, of False]
  obtain seqs where s: "padded_seqs ?feats [1,2] [[0],[2,1]] = Inr seqs"
    and run: "create_packed_seq False ?feats [1,2] [[0],[2,1]]
              = pack_padded_sequence
                  ((if False then (\<lambda>t. t) else permute_1_0_2)
                     (seqs\<lparr>t3_data := map (\<lambda>k. t3_data seqs ! k) (decreasing_order [1,2])\<rparr>))
                  (map (\<lambda>k. [1,2] ! k) (decreasing_order [1,2])) False"
    by blast
  have seqs: "seqs = ?x" using s pad by simp
  have "create_packed_seq False ?feats [1,2] [[0],[2,1]]
        = Inr \<lparr>ps_dim = 2, ps_steps = [[[5,6],[1,2]],[[3,4]]]\<rparr>"
    unfolding run seqs decreasing_order_example
    by (simp add: pack_padded_sequence_def permute_1_0_2_def upt_rec numeral_2_eq_2)
  then show ?thesis using pad by simp
qed

lemma create_packed_seq_pre_valid:
  assumes "create_packed_seq_pre feats seq_lens lookup_table"
  shows "valid_lookups feats seq_lens lookup_table"
  using assms unfolding create_packed_seq_pre_def valid_lookups_def list_all_iff
  by auto

text \<open>
  C10: under the precondition \<open>create_packed_seq_pre\<close> no index evaluated by
  \<open>create_packed_seq\<close> is out of bounds and \<open>max(seq_lens)\<close> is defined: the call returns
  a packed sequence, for either value of \<open>batch_first\<close>.
\<close>

theorem create_packed_seq_no_error:
  assumes pre: "create_packed_seq_pre feats seq_lens lookup_table"
  shows "\<exists>ps. create_packed_seq batch_first feats seq_lens lookup_table = Inr ps"
proof -
  let ?ls = "py_sorted_reverse (\<lambda>l. l) seq_lens"
  let ?x = "\<lparr>t3_size1 = nat (Max (set seq_lens)), t3_size2 = t_cols feats,
                 t3_data = map (\<lambda>k. padded_rows feats seq_lens lookup_table ! k)
                               (decreasing_order seq_lens)\<rparr>"
  have ne: "seq_lens \<noteq> []" and pos: "\<forall>l\<in>set seq_lens. 0 < l"
    using pre by (simp_all add: create_packed_seq_pre_def list_all_iff)
  have "Max (set seq_lens) \<in> set seq_lens" using ne by (intro Max_in) simp_all
  then have m0: "0 \<le> Max (set seq_lens)" using pos by fastforce
  have set: "set ?ls = set seq_lens" by (simp add: py_sorted_reverse_def)
  have run: "create_packed_seq batch_first feats seq_lens lookup_table
             = pack_padded_sequence ((if batch_first then (\<lambda>t. t) else permute_1_0_2) ?x)
                 ?ls batch_first"
    by (rule create_packed_seq_run[OF ne m0 create_packed_seq_pre_valid[OF pre]])
  have "pack_padded_sequence ((if batch_first then (\<lambda>t. t) else permute_1_0_2) ?x) ?ls batch_first
        = Inr \<lparr>ps_dim = t3_size2 ?x,
                ps_steps = map (\<lambda>t. take (length (filter (\<lambda>l. int t < l) ?ls))
                                         (map (\<lambda>i. t3_data ?x ! i ! t) [0..<length (t3_data ?x)]))
                               [0..<nat (hd ?ls)]\<rparr>"
  proof (rule pack_padded_sequence_ok)
    show "?ls \<noteq> []" using ne set by fastforce
    show "\<forall>l\<in>set ?ls. 0 < l" using pos set by simp
    show "sorted (rev ?ls)" by (rule py_sorted_reverse_decreasing)
    show "length ?ls = length (t3_data ?x)"
      by (simp add: py_sorted_reverse_def decreasing_order_permutation)
    show "hd ?ls \<le> int (t3_size1 ?x)"
      using m0 by (simp add: hd_py_sorted_reverse[OF ne])
  qed
  then show ?thesis using run by simp
qed

text \<open>
  The theorem at two sequences of lengths 2 and 1 over three feature rows, the first
  lookup being the negative index \<open>-1\<close>.
\<close>

theorem create_packed_seq_no_error_witness:
  "create_packed_seq_pre \<lparr>t_cols = 2, t_rows = [[1,2],[3,4],[5,6]]\<rparr> [2,1] [[-1,0],[1]]
   \<and> (\<exists>ps. create_packed_seq True \<lparr>t_cols = 2, t_rows = [[1,2],[3,4],[5,6]]\<rparr> [2,1] [[-1,0],[1]] = Inr ps)"
proof -
  have pre: "create_packed_seq_pre \<lparr>t_cols = 2, t_rows = [[1,2],[3,4],[5,6]]\<rparr> [2,1] [[-1,0],[1]]"
    by (simp add: create_packed_seq_pre_def upt_rec numeral_2_eq_2)
  show ?thesis using pre create_packed_seq_no_error[OF pre, of True] by simp
qed

section \<open>Properties of the sequence losses\<close>

lemma foldE_sum_pair:
  assumes "\<And>x s1 s2. x \<in> set xs \<Longrightarrow> f x (s1, s2) = Inr (s1 + a x, s2 + b x)"
  shows "foldE f xs (s1, s2) = Inr (s1 + sum_list (map a xs), s2 + sum_list (map b xs))"
  using assms
proof (induction xs arbitrary: s1 s2)
  case Nil
  then show ?case by simp
next
  case (Cons x xs)
  have "f x (s1, s2) = Inr (s1 + a x, s2 + b x)" using Cons.prems by simp
  moreover have "foldE f xs (s1 + a x, s2 + b x)
      = Inr (s1 + a x + sum_list (map a xs), s2 + b x + sum_list (map b xs))"
    using Cons.prems by (intro Cons.IH) simp
  ultimately show ?case by (simp add: add.assoc)
qed

lemma sum_list_map_upt: "sum_list (map f [0..<n]) = (\<Sum>i<n. f i)"
  by (simp add: sum_list_sum_nth atLeast0LessThan)

lemma dotp_map2: "length a = length b \<Longrightarrow> sum_list (map2 (*) a b) = dotp a b"
  by (simp add: sum_list_map2_nth dotp_def)

lemma torch_dot_dotp: "length a = length b \<Longrightarrow> torch_dot a b = Inr (dotp a b)"
  by (simp add: torch_dot_def dotp_map2)

lemma mapE_upt:
  "(\<And>k. k < n \<Longrightarrow> f k = Inr (g k)) \<Longrightarrow> mapE f [0..<n] = Inr (map g [0..<n])"
  by (rule mapE_all_Inr) simp

lemma batch_denom_value:
  assumes j: "j < length hs" and h: "length (hs ! j) = t3_size2 feats"
    and n: "n \<le> length (t3_data feats)"
    and rows: "\<And>k t. k < n \<Longrightarrow> t < m \<Longrightarrow> length (t3_data feats ! k ! t) = t3_size2 feats"
    and len: "\<And>k. k < n \<Longrightarrow> length (t3_data feats ! k) = m"
  shows "batch_denom feats n hs j
         = Inr (\<Sum>k<n. \<Sum>t<m. exp (dotp (hs ! j) (t3_data feats ! k ! t)))"
proof -
  have summand: "bindE (py_index hs (int j)) (\<lambda>h.
              bindE (py_index (t3_data feats) (int k)) (\<lambda>feats_k.
              exp_mm_sum h (t3_size2 feats) feats_k))
            = Inr (\<Sum>t<m. exp (dotp (hs ! j) (t3_data feats ! k ! t)))" if k: "k < n" for k
  proof -
    have "map (\<lambda>r. exp (sum_list (map2 (*) (hs ! j) r))) (t3_data feats ! k)
          = map (\<lambda>t. exp (dotp (hs ! j) (t3_data feats ! k ! t))) [0..<m]"
      using len[OF k] rows[OF k] h by (intro nth_equalityI) (simp_all add: dotp_map2)
    then show ?thesis
      using j k n h by (simp add: py_index_nat exp_mm_sum_def sum_list_map_upt)
  qed
  show ?thesis
    unfolding batch_denom_def
    by (simp add: mapE_upt[where g = "\<lambda>k. \<Sum>t<m. exp (dotp (hs ! j) (t3_data feats ! k ! t))"]
        summand sum_list_map_upt)
qed

lemma downward_closed_filter:
  assumes "\<And>t t'. t \<le> t' \<Longrightarrow> t' < length xs \<Longrightarrow> P (xs ! t') \<Longrightarrow> P (xs ! t)"
    and "t < length xs"
  shows "P (xs ! t) \<longleftrightarrow> t < length (filter P xs)"
  using assms
proof (induction xs arbitrary: t)
  case Nil
  then show ?case by simp
next
  case (Cons x xs)
  have tl: "P (xs ! a)" if "a \<le> b" "b < length xs" "P (xs ! b)" for a b
    using Cons.prems(1)[of "Suc a" "Suc b"] that by simp
  show ?case
  proof (cases "P x")
    case True
    then show ?thesis
      using Cons.IH[OF tl] Cons.prems(2) by (cases t) auto
  next
    case False
    have none: "\<not> P (xs ! b)" if "b < length xs" for b
      using Cons.prems(1)[of 0 "Suc b"] that False by auto
    then have "filter P xs = []"
      by (auto simp: filter_empty_conv in_set_conv_nth)
    then show ?thesis
      using False none Cons.prems(2) by (cases t) auto
  qed
qed

lemma pad_batch_first:
  assumes wf: "wf_packed ps" and pad: "pad_packed_sequence ps True = Inr (feats, lens)"
  shows "length (t3_data feats) = length (hd (ps_steps ps))"
    and "t3_size1 feats = length (ps_steps ps)"
    and "t3_size2 feats = ps_dim ps"
    and "length lens = length (hd (ps_steps ps))"
    and "\<And>i. i < length (hd (ps_steps ps)) \<Longrightarrow> length (t3_data feats ! i) = length (ps_steps ps)"
    and "\<And>i t. i < length (hd (ps_steps ps)) \<Longrightarrow> t < length (ps_steps ps) \<Longrightarrow>
           t3_data feats ! i ! t
           = (if t < lens ! i then ps_steps ps ! t ! i else replicate (ps_dim ps) 0)"
    and "\<And>i. i < length (hd (ps_steps ps)) \<Longrightarrow> 0 < lens ! i \<and> lens ! i \<le> length (ps_steps ps)"
    and "\<And>i t. i < length (hd (ps_steps ps)) \<Longrightarrow> t < lens ! i \<Longrightarrow> i < length (ps_steps ps ! t)"
proof -
  let ?steps = "ps_steps ps"
  let ?B = "length (hd ?steps)"
  have ne: "?steps \<noteq> []" using wf by (simp add: wf_packed_def)
  have feats: "feats = permute_1_0_2 \<lparr>t3_size1 = ?B, t3_size2 = ps_dim ps,
                                      t3_data = padded_batch ps\<rparr>"
    and lens: "lens = seq_lengths ps"
    using pad ne by (simp_all add: pad_packed_sequence_def Let_def)
  have mono: "length (?steps ! t') \<le> length (?steps ! t)" if "t \<le> t'" "t' < length ?steps" for t t'
  proof -
    have "sorted (rev (map length ?steps))" using wf by (simp add: wf_packed_def)
    then have "map length ?steps ! t' \<le> map length ?steps ! t"
      using that by (simp add: sorted_rev_iff_nth_mono del: nth_map)
    then show ?thesis using that by simp
  qed
  have act: "(i < length (?steps ! t)) \<longleftrightarrow> t < lens ! i"
    if "i < ?B" "t < length ?steps" for i t
  proof -
    have "(i < length (?steps ! t)) \<longleftrightarrow> t < length (filter (\<lambda>s. i < length s) ?steps)"
      by (rule downward_closed_filter) (use mono that in force)+
    then show ?thesis using that by (simp add: lens seq_lengths_def)
  qed
  show "length (t3_data feats) = ?B" by (simp add: feats permute_1_0_2_def)
  show "t3_size1 feats = length ?steps" by (simp add: feats permute_1_0_2_def padded_batch_def)
  show "t3_size2 feats = ps_dim ps" by (simp add: feats permute_1_0_2_def)
  show "length lens = ?B" by (simp add: lens seq_lengths_def)
  show "length (t3_data feats ! i) = length ?steps" if "i < ?B" for i
    using that by (simp add: feats permute_1_0_2_def padded_batch_def)
  show "t3_data feats ! i ! t
           = (if t < lens ! i then ?steps ! t ! i else replicate (ps_dim ps) 0)"
    if "i < ?B" "t < length ?steps" for i t
    using that act[OF that] by (simp add: feats permute_1_0_2_def padded_batch_def)
  show "0 < lens ! i \<and> lens ! i \<le> length ?steps" if "i < ?B" for i
  proof -
    have "0 < length ?steps" using ne by simp
    moreover have "i < length (?steps ! 0)" using that ne by (simp add: hd_conv_nth)
    ultimately have "0 < lens ! i" using act[OF that, of 0] by simp
    moreover have "lens ! i \<le> length ?steps"
      using that by (simp add: lens seq_lengths_def)
    ultimately show ?thesis by simp
  qed
  then show "i < length (?steps ! t)" if "i < ?B" "t < lens ! i" for i t
    using act[of i t] that by fastforce
qed

lemma has_shape3D:
  assumes "has_shape3 t b m d"
  shows "length (t3_data t) = b" "t3_size1 t = m" "t3_size2 t = d"
    "\<And>i. i < b \<Longrightarrow> length (t3_data t ! i) = m"
    "\<And>i j. i < b \<Longrightarrow> j < m \<Longrightarrow> length (t3_data t ! i ! j) = d"
proof -
  have all: "\<forall>rows\<in>set (t3_data t). length rows = m \<and> (\<forall>r\<in>set rows. length r = d)"
    using assms unfolding has_shape3_def list_all_iff by simp
  show "length (t3_data t) = b" "t3_size1 t = m" "t3_size2 t = d"
    using assms by (simp_all add: has_shape3_def)
  then show "length (t3_data t ! i) = m" if "i < b" for i
    using all that nth_mem by blast
  show "length (t3_data t ! i ! j) = d" if "i < b" "j < m" for i j
  proof -
    have "t3_data t ! i \<in> set (t3_data t)"
      using that \<open>length (t3_data t) = b\<close> by simp
    then have "length (t3_data t ! i) = m" "\<forall>r\<in>set (t3_data t ! i). length r = d"
      using all by simp_all
    then show ?thesis using that nth_mem by metis
  qed
qed

lemma timestep_step_value:
  assumes j: "j < length hf" "j < length hb" "j < n"
    and hfl: "length (hf ! j) = t3_size2 feats" and hbl: "length (hb ! j) = t3_size2 feats"
    and B: "length (t3_data feats) = b"
    and len: "\<And>k. k < b \<Longrightarrow> length (t3_data feats ! k) = m"
    and rows: "\<And>k t. k < b \<Longrightarrow> t < m \<Longrightarrow> length (t3_data feats ! k ! t) = t3_size2 feats"
    and xs: "length xs = n" "\<And>t. t < n \<Longrightarrow> length (xs ! t) = t3_size2 feats"
  shows "timestep_step feats b hf (xs @ [replicate (t3_size2 feats) 0]) hb
           ([replicate (t3_size2 feats) 0] @ xs) j (s1, s2)
         = Inr (s1 + exp (dotp (hf ! j) (if j + 1 < n then xs ! (j + 1)
                                          else replicate (t3_size2 feats) 0))
                     / denom_formula (t3_data feats) m (hf ! j),
                s2 + exp (dotp (hb ! j) (if j = 0 then replicate (t3_size2 feats) 0
                                          else xs ! (j - 1)))
                     / denom_formula (t3_data feats) m (hb ! j))"
proof -
  let ?D = "t3_size2 feats"
  let ?fx = "if j + 1 < n then xs ! (j + 1) else replicate ?D 0"
  let ?bx = "if j = 0 then replicate ?D 0 else xs ! (j - 1)"
  have dF: "batch_denom feats b hf j = Inr (denom_formula (t3_data feats) m (hf ! j))"
    unfolding denom_formula_def B
    by (rule batch_denom_value) (use j hfl B len rows in simp_all)
  have dB: "batch_denom feats b hb j = Inr (denom_formula (t3_data feats) m (hb ! j))"
    unfolding denom_formula_def B
    by (rule batch_denom_value) (use j hbl B len rows in simp_all)
  have iF: "py_index hf (int j) = Inr (hf ! j)" and iB: "py_index hb (int j) = Inr (hb ! j)"
    using j by (simp_all add: py_index_nat)
  have fx: "py_index (xs @ [replicate ?D 0]) (int (j + 1)) = Inr ?fx"
  proof -
    have "j + 1 < length (xs @ [replicate ?D 0])" using j xs by simp
    then have "py_index (xs @ [replicate ?D 0]) (int (j + 1))
               = Inr ((xs @ [replicate ?D 0]) ! (j + 1))"
      by (rule py_index_nat)
    also have "(xs @ [replicate ?D 0]) ! (j + 1) = ?fx"
      using j xs by (auto simp: nth_append)
    finally show ?thesis .
  qed
  have bx: "py_index ([replicate ?D 0] @ xs) (int j) = Inr ?bx"
  proof -
    have "j < length ([replicate ?D 0] @ xs)" using j xs by simp
    then have "py_index ([replicate ?D 0] @ xs) (int j) = Inr (([replicate ?D 0] @ xs) ! j)"
      by (rule py_index_nat)
    also have "([replicate ?D 0] @ xs) ! j = ?bx"
      by (cases j) simp_all
    finally show ?thesis .
  qed
  have lfx: "length ?fx = ?D" using xs by simp
  have lbx: "length ?bx = ?D" using xs j by simp
  have tF: "torch_dot (hf ! j) ?fx = Inr (dotp (hf ! j) ?fx)"
    by (rule torch_dot_dotp) (simp only: hfl lfx)
  have tB: "torch_dot (hb ! j) ?bx = Inr (dotp (hb ! j) ?bx)"
    by (rule torch_dot_dotp) (simp only: hbl lbx)
  show ?thesis
    unfolding timestep_step.simps dF iF fx tF dB iB bx tB bindE_Inr Let_def ..
qed

text \<open>
  C2, for a module built with \<open>batch_first = True\<close>: for a well-formed packed batch with
  padded features \<open>feats\<close> and lengths \<open>seq_lens\<close>, and hidden states of shape batch size
  \<open>\<times>\<close> longest length \<open>\<times>\<close> twice the feature width, \<^verbatim>\<open>LSTMLosses.forward\<close> returns
  the pair of the mean forward and the mean backward loss. The loss of sequence \<open>i\<close> is
  \<open>- ln (\<Sum>j<seq_lens ! i. prob i j) / seq_lens ! i\<close>; the forward probability at \<open>j\<close> is
  \<open>exp (h_fw[i,j] . x[i,j+1])\<close>, with the zero stop vector after the last position, over
  the sum of \<open>exp (h_fw[i,j] . x[k,t])\<close> for every sequence \<open>k\<close> and every position \<open>t\<close> of
  the padded batch; the backward probability uses \<open>h_bw[i,j]\<close> and \<open>x[i,j-1]\<close>, with the
  zero start vector before the first position.
\<close>

theorem LSTMLosses_forward_batch_first:
  assumes wf: "wf_packed packed_feats"
    and pad: "pad_packed_sequence packed_feats True = Inr (feats, seq_lens)"
    and hid: "has_shape3 hidden (length seq_lens) (t3_size1 feats) (2 * t3_size2 feats)"
  shows "LSTMLosses_forward True packed_feats hidden
         = Inr (mean_seq_loss
                  (fw_prob_formula (t3_data feats) seq_lens (t3_size1 feats) (t3_size2 feats)
                     (map (map (take (t3_size2 feats))) (t3_data hidden))) seq_lens,
                mean_seq_loss
                  (bw_prob_formula (t3_data feats) (t3_size1 feats) (t3_size2 feats)
                     (map (map (drop (t3_size2 feats))) (t3_data hidden))) seq_lens)"
proof -
  let ?x = "t3_data feats" and ?T = "t3_size1 feats" and ?D = "t3_size2 feats"
  let ?B = "length seq_lens" and ?h = "t3_data hidden"
  let ?hf = "map (map (take ?D)) ?h" and ?hb = "map (map (drop ?D)) ?h"
  let ?fw = "fw_prob_formula ?x seq_lens ?T ?D ?hf"
  let ?bw = "bw_prob_formula ?x ?T ?D ?hb"
  note pf = pad_batch_first[OF wf pad]
  note hs = has_shape3D[OF hid]
  have Bpos: "0 < ?B" using wf pf(4) by (simp add: wf_packed_def)
  have xB: "length ?x = ?B" using pf(1,4) by simp
  have xlen: "length (?x ! k) = ?T" if "k < ?B" for k
    using pf(5)[of k] pf(2,4) that by simp
  have xrow: "length (?x ! k ! t) = ?D" if "k < ?B" "t < ?T" for k t
  proof -
    have k: "k < length (hd (ps_steps packed_feats))" and t: "t < length (ps_steps packed_feats)"
      using that pf(2,4) by simp_all
    show ?thesis
    proof (cases "t < seq_lens ! k")
      case True
      have "ps_steps packed_feats ! t \<in> set (ps_steps packed_feats)" using t by simp
      moreover have "k < length (ps_steps packed_feats ! t)" using pf(8)[OF k True] .
      ultimately have "length (ps_steps packed_feats ! t ! k) = ps_dim packed_feats"
        using wf unfolding wf_packed_def list_all_iff by simp
      then show ?thesis using pf(6)[OF k t] True pf(3) by simp
    next
      case False
      then show ?thesis using pf(6)[OF k t] pf(3) by simp
    qed
  qed
  have lenT: "0 < seq_lens ! i \<and> seq_lens ! i \<le> ?T" if "i < ?B" for i
    using pf(7)[of i] pf(2,4) that by simp
  have half: "t3_size2 hidden div 2 = ?D" using hs(3) by simp
  have hsplit: "length (take ?D (?h ! i ! j)) = ?D" "length (drop ?D (?h ! i ! j)) = ?D"
    if "i < ?B" "j < ?T" for i j
    using hs(5)[OF that] by simp_all
  have inner: "timestep_step feats ?B (map (take ?D) (take (seq_lens ! i) (?h ! i)))
                 (take (seq_lens ! i) (?x ! i) @ [replicate ?D 0])
                 (map (drop ?D) (take (seq_lens ! i) (?h ! i)))
                 ([replicate ?D 0] @ take (seq_lens ! i) (?x ! i)) j (s1, s2)
               = Inr (s1 + ?fw i j, s2 + ?bw i j)"
    if i: "i < ?B" and j: "j < seq_lens ! i" for i j s1 s2
  proof -
    let ?n = "seq_lens ! i"
    let ?f = "map (take ?D) (take ?n (?h ! i))" and ?b = "map (drop ?D) (take ?n (?h ! i))"
    let ?xs = "take ?n (?x ! i)"
    have jT: "j < ?T" using lenT[OF i] j by simp
    have lh: "length (?h ! i) = ?T" using hs(4)[OF i] .
    have fj: "?f ! j = ?hf ! i ! j" and bj: "?b ! j = ?hb ! i ! j"
      using i j jT lh hs(1) by simp_all
    have lxs: "length ?xs = ?n" using xlen[OF i] lenT[OF i] by simp
    have run: "timestep_step feats ?B ?f (?xs @ [replicate ?D 0]) ?b ([replicate ?D 0] @ ?xs) j (s1, s2)
         = Inr (s1 + exp (dotp (?f ! j) (if j + 1 < ?n then ?xs ! (j + 1) else replicate ?D 0))
                     / denom_formula ?x ?T (?f ! j),
                s2 + exp (dotp (?b ! j) (if j = 0 then replicate ?D 0 else ?xs ! (j - 1)))
                     / denom_formula ?x ?T (?b ! j))"
    proof (rule timestep_step_value)
      show "j < length ?f" "j < length ?b" "j < ?n" using j lh lenT[OF i] by simp_all
      show "length (?f ! j) = ?D" "length (?b ! j) = ?D"
        using hsplit[OF i jT] j lh lenT[OF i] by simp_all
      show "length ?x = ?B" by (rule xB)
      show "length (?x ! k) = ?T" if "k < ?B" for k by (rule xlen[OF that])
      show "length (?x ! k ! t) = ?D" if "k < ?B" "t < ?T" for k t by (rule xrow[OF that])
      show "length ?xs = ?n" by (rule lxs)
      show "length (?xs ! t) = ?D" if "t < ?n" for t
        using that xrow[OF i, of t] lenT[OF i] by simp
    qed
    have fx: "(if j + 1 < ?n then ?xs ! (j + 1) else replicate ?D 0)
              = (if j + 1 < ?n then ?x ! i ! (j + 1) else replicate ?D 0)"
      by simp
    have bx: "(if j = 0 then replicate ?D 0 else ?xs ! (j - 1))
              = (if j = 0 then replicate ?D 0 else ?x ! i ! (j - 1))"
      using j by simp
    show ?thesis
      unfolding run fx bx fj bj fw_prob_formula_def bw_prob_formula_def ..
  qed
  have outer: "sequence_step feats hidden ?B (i, seq_lens ! i) (a, b)
               = Inr (a + (- ln (\<Sum>j<seq_lens ! i. ?fw i j) / real (seq_lens ! i)),
                      b + (- ln (\<Sum>j<seq_lens ! i. ?bw i j) / real (seq_lens ! i)))"
    if i: "i < ?B" for i a b
  proof -
    let ?n = "seq_lens ! i"
    have sf: "index_slice feats i ?n = Inr (take ?n (?x ! i))"
      using i xB by (simp add: index_slice_def py_index_nat)
    have sh: "index_slice hidden i ?n = Inr (take ?n (?h ! i))"
      using i hs(1) by (simp add: index_slice_def py_index_nat)
    have loop: "foldE (timestep_step feats ?B (map (take ?D) (take ?n (?h ! i)))
                 (take ?n (?x ! i) @ [replicate ?D 0])
                 (map (drop ?D) (take ?n (?h ! i)))
                 ([replicate ?D 0] @ take ?n (?x ! i))) [0..<?n] (0, 0)
          = Inr (0 + sum_list (map (?fw i) [0..<?n]), 0 + sum_list (map (?bw i) [0..<?n]))"
    proof (rule foldE_sum_pair)
      fix j s1 s2
      assume "j \<in> set [0..<?n]"
      then have "j < ?n" by simp
      then show "timestep_step feats ?B (map (take ?D) (take ?n (?h ! i)))
                 (take ?n (?x ! i) @ [replicate ?D 0])
                 (map (drop ?D) (take ?n (?h ! i)))
                 ([replicate ?D 0] @ take ?n (?x ! i)) j (s1, s2)
               = Inr (s1 + ?fw i j, s2 + ?bw i j)"
        by (rule inner[OF i])
    qed
    show ?thesis
      unfolding sequence_step.simps Let_def sf sh bindE_Inr half loop
      by (simp add: sum_list_map_upt)
  qed
  have all: "foldE (sequence_step feats hidden ?B) (enumerate 0 seq_lens) (0, 0)
        = Inr (0 + sum_list (map (\<lambda>i. - ln (\<Sum>j<seq_lens ! i. ?fw i j) / real (seq_lens ! i))
                              [0..<?B]),
               0 + sum_list (map (\<lambda>i. - ln (\<Sum>j<seq_lens ! i. ?bw i j) / real (seq_lens ! i))
                              [0..<?B]))"
    unfolding enumerate_nth foldE_map
  proof (rule foldE_sum_pair)
    fix i a b
    assume "i \<in> set [0..<?B]"
    then have "i < ?B" by simp
    then show "sequence_step feats hidden ?B (i, seq_lens ! i) (a, b)
               = Inr (a + (- ln (\<Sum>j<seq_lens ! i. ?fw i j) / real (seq_lens ! i)),
                      b + (- ln (\<Sum>j<seq_lens ! i. ?bw i j) / real (seq_lens ! i)))"
      by (rule outer)
  qed
  have ne: "seq_lens \<noteq> []" using Bpos by auto
  show ?thesis
    unfolding LSTMLosses_forward_def pad bindE_Inr prod.case all
    using ne by (simp add: sum_list_map_upt mean_seq_loss_def)
qed

lemma ex_wf: "wf_packed ex_packed"
  by (simp add: wf_packed_def ex_packed_def)

lemma ex_pad: "pad_packed_sequence ex_packed True = Inr (ex_feats, [2, 1])"
  by (simp add: pad_packed_sequence_def ex_packed_def ex_feats_def padded_batch_def
      seq_lengths_def permute_1_0_2_def upt_rec)

lemma ex_shape: "has_shape3 ex_hidden (length [2, 1 :: nat]) (t3_size1 ex_feats) (2 * t3_size2 ex_feats)"
  by (simp add: has_shape3_def ex_hidden_def ex_feats_def)

lemma ex_dotp [simp]: "dotp [0] x = 0"
  by (simp add: dotp_def)

lemma ex_denom: "denom_formula [[[0], [0]], [[0], [0]]] 2 [0] = 4"
  by (simp add: denom_formula_def lessThan_Suc numeral_2_eq_2)

lemma ex_fw: "mean_seq_loss
                  (fw_prob_formula (t3_data ex_feats) [2, 1] (t3_size1 ex_feats) (t3_size2 ex_feats)
                     (map (map (take (t3_size2 ex_feats))) (t3_data ex_hidden))) [2, 1] = (- ln (1 / 2) / 2 - ln (1 / 4)) / 2"
  apply (simp add: mean_seq_loss_def fw_prob_formula_def ex_hidden_def lessThan_Suc numeral_2_eq_2)
  apply (simp add: ex_feats_def ex_denom)
  done

lemma ex_bw: "mean_seq_loss
                  (bw_prob_formula (t3_data ex_feats) (t3_size1 ex_feats) (t3_size2 ex_feats)
                     (map (map (drop (t3_size2 ex_feats))) (t3_data ex_hidden))) [2, 1] = (- ln (1 / 2) / 2 - ln (1 / 4)) / 2"
  apply (simp add: mean_seq_loss_def bw_prob_formula_def ex_hidden_def lessThan_Suc numeral_2_eq_2)
  apply (simp add: ex_feats_def ex_denom)
  done

text \<open>
  The theorem at the example batch: every denominator is 4 (three positions inside a
  sequence and one padded position), the probabilities of the first sequence add up to
  \<open>1 / 2\<close> and the one of the second is \<open>1 / 4\<close>.
\<close>

theorem LSTMLosses_forward_batch_first_witness:
  "LSTMLosses_forward True ex_packed ex_hidden
   = Inr ((- ln (1 / 2) / 2 - ln (1 / 4)) / 2, (- ln (1 / 2) / 2 - ln (1 / 4)) / 2)"
  using LSTMLosses_forward_batch_first[OF ex_wf ex_pad ex_shape]
  unfolding ex_fw ex_bw .

text \<open>
  C2 as stated, without the restriction to \<open>batch_first = True\<close>, fails: for a module
  built with \<open>batch_first = False\<close> and one sequence of length 2 the padded features are
  time-major, \<open>feats[0, :2, :]\<close> is the single row of the first step, and the second
  timestep reads past the end. The call raises \<^verbatim>\<open>IndexError\<close> whether the hidden states
  are given time-major or batch-major.
\<close>

theorem LSTMLosses_forward_time_major_fails:
  "wf_packed \<lparr>ps_dim = 1, ps_steps = [[[0]], [[0]]]\<rparr>
   \<and> LSTMLosses_forward False \<lparr>ps_dim = 1, ps_steps = [[[0]], [[0]]]\<rparr>
       \<lparr>t3_size1 = 1, t3_size2 = 2, t3_data = [[[0, 0]], [[0, 0]]]\<rparr> = Inl IndexError
   \<and> LSTMLosses_forward False \<lparr>ps_dim = 1, ps_steps = [[[0]], [[0]]]\<rparr>
       \<lparr>t3_size1 = 2, t3_size2 = 2, t3_data = [[[0, 0], [0, 0]]]\<rparr> = Inl IndexError"
  by (simp add: wf_packed_def LSTMLosses_forward_def pad_packed_sequence_def padded_batch_def
      seq_lengths_def enumerate_eq_zip upt_rec index_slice_def py_index_def batch_denom_def
      exp_mm_sum_def torch_dot_def numeral_2_eq_2)

lemma dotp_zeros: "dotp h (replicate (length h) 0) = 0"
  by (simp add: dotp_def)

text \<open>
  C9, for a module built with \<open>batch_first = True\<close>: the denominator of a timestep with
  hidden vector \<open>h\<close> is the sum of \<open>exp (h . x[k,t])\<close> over every sequence \<open>k\<close> and every
  position \<open>t\<close> below the longest length. A position at or beyond the length of its
  sequence holds the zero vector and contributes \<open>exp 0 = 1\<close>, so the denominator is the
  sum over the positions inside the sequences plus the number of padded positions.
\<close>

theorem batch_denom_counts_padding:
  assumes wf: "wf_packed packed_feats"
    and pad: "pad_packed_sequence packed_feats True = Inr (feats, seq_lens)"
    and j: "j < length seq_hiddens"
    and h: "length (seq_hiddens ! j) = t3_size2 feats"
  shows "batch_denom feats (length seq_lens) seq_hiddens j
         = Inr (\<Sum>k<length seq_lens. \<Sum>t<t3_size1 feats.
                  exp (dotp (seq_hiddens ! j) (t3_data feats ! k ! t)))
       \<and> (\<forall>k<length seq_lens. \<forall>t<t3_size1 feats. seq_lens ! k \<le> t \<longrightarrow>
            t3_data feats ! k ! t = replicate (t3_size2 feats) 0
            \<and> exp (dotp (seq_hiddens ! j) (t3_data feats ! k ! t)) = 1)
       \<and> (\<Sum>k<length seq_lens. \<Sum>t<t3_size1 feats.
             exp (dotp (seq_hiddens ! j) (t3_data feats ! k ! t)))
         = (\<Sum>k<length seq_lens.
             (\<Sum>t<seq_lens ! k. exp (dotp (seq_hiddens ! j) (t3_data feats ! k ! t)))
             + real (t3_size1 feats - seq_lens ! k))"
proof -
  let ?x = "t3_data feats" and ?T = "t3_size1 feats" and ?D = "t3_size2 feats"
  let ?B = "length seq_lens" and ?h = "seq_hiddens ! j"
  note pf = pad_batch_first[OF wf pad]
  have xB: "length ?x = ?B" using pf(1,4) by simp
  have xlen: "length (?x ! k) = ?T" if "k < ?B" for k
    using pf(5)[of k] pf(2,4) that by simp
  have pos: "?x ! k ! t = (if t < seq_lens ! k then ps_steps packed_feats ! t ! k
                           else replicate ?D 0)" if "k < ?B" "t < ?T" for k t
    using pf(6)[of k t] pf(2,3,4) that by simp
  have xrow: "length (?x ! k ! t) = ?D" if "k < ?B" "t < ?T" for k t
  proof (cases "t < seq_lens ! k")
    case True
    have k: "k < length (hd (ps_steps packed_feats))" using that pf(4) by simp
    have "ps_steps packed_feats ! t \<in> set (ps_steps packed_feats)" using that pf(2) by simp
    moreover have "k < length (ps_steps packed_feats ! t)" using pf(8)[OF k True] .
    ultimately have "length (ps_steps packed_feats ! t ! k) = ps_dim packed_feats"
      using wf unfolding wf_packed_def list_all_iff by simp
    then show ?thesis using pos[OF that] True pf(3) by simp
  next
    case False
    then show ?thesis using pos[OF that] by simp
  qed
  have padded: "?x ! k ! t = replicate ?D 0 \<and> exp (dotp ?h (?x ! k ! t)) = 1"
    if "k < ?B" "t < ?T" "seq_lens ! k \<le> t" for k t
  proof -
    have z: "?x ! k ! t = replicate ?D 0" using pos[OF that(1,2)] that(3) by simp
    have "dotp ?h (replicate ?D 0) = 0" using dotp_zeros[of ?h] h by simp
    then show ?thesis using z by simp
  qed
  have split: "(\<Sum>t<?T. exp (dotp ?h (?x ! k ! t)))
               = (\<Sum>t<seq_lens ! k. exp (dotp ?h (?x ! k ! t))) + real (?T - seq_lens ! k)"
    if k: "k < ?B" for k
  proof -
    let ?n = "seq_lens ! k"
    have le: "?n \<le> ?T" using pf(7)[of k] pf(2,4) k by simp
    have "(\<Sum>t<?T. exp (dotp ?h (?x ! k ! t)))
          = (\<Sum>t = 0..<?n. exp (dotp ?h (?x ! k ! t))) + (\<Sum>t = ?n..<?T. exp (dotp ?h (?x ! k ! t)))"
      using le by (simp add: lessThan_atLeast0 sum.atLeastLessThan_concat)
    also have "(\<Sum>t = ?n..<?T. exp (dotp ?h (?x ! k ! t))) = (\<Sum>t = ?n..<?T. 1)"
    proof (rule sum.cong)
      fix t assume "t \<in> {?n..<?T}"
      then have "t < ?T" "?n \<le> t" by simp_all
      then show "exp (dotp ?h (?x ! k ! t)) = 1" using padded[OF k] by blast
    qed simp
    finally show ?thesis by (simp add: lessThan_atLeast0)
  qed
  have run: "batch_denom feats ?B seq_hiddens j
             = Inr (\<Sum>k<?B. \<Sum>t<?T. exp (dotp ?h (?x ! k ! t)))"
    by (rule batch_denom_value) (use j h xB xlen xrow in simp_all)
  have total: "(\<Sum>k<?B. \<Sum>t<?T. exp (dotp ?h (?x ! k ! t)))
        = (\<Sum>k<?B. (\<Sum>t<seq_lens ! k. exp (dotp ?h (?x ! k ! t))) + real (?T - seq_lens ! k))"
    by (rule sum.cong) (simp_all add: split)
  show ?thesis using run padded total by blast
qed

text \<open>
  The theorem at the example batch: three positions inside a sequence and one padded
  position, each contributing 1.
\<close>

theorem batch_denom_counts_padding_witness:
  "batch_denom ex_feats (length [2, 1 :: nat]) [[0], [0]] 0 = Inr 4
   \<and> (\<Sum>k<length [2, 1 :: nat].
         (\<Sum>t<[2, 1] ! k. exp (dotp ([[0], [0]] ! 0) (t3_data ex_feats ! k ! t)))
         + real (t3_size1 ex_feats - [2, 1] ! k)) = 4"
proof -
  have j: "0 < length [[0], [0 :: real]]" by simp
  have h: "length ([[0], [0 :: real]] ! 0) = t3_size2 ex_feats" by (simp add: ex_feats_def)
  note run = batch_denom_counts_padding[OF ex_wf ex_pad j h, THEN conjunct1]
  note split = batch_denom_counts_padding[OF ex_wf ex_pad j h, THEN conjunct2, THEN conjunct2]
  have v: "(\<Sum>k<length [2, 1 :: nat].
         (\<Sum>t<[2, 1] ! k. exp (dotp ([[0], [0]] ! 0) (t3_data ex_feats ! k ! t)))
         + real (t3_size1 ex_feats - [2, 1] ! k)) = 4"
    by (simp add: ex_feats_def lessThan_Suc numeral_2_eq_2)
  have "batch_denom ex_feats (length [2, 1 :: nat]) [[0], [0]] 0 = Inr 4"
    unfolding run split v ..
  then show ?thesis using v by (rule conjI)
qed

text \<open>
  C9 as stated, without the restriction to \<open>batch_first = True\<close>, fails: for a module
  built with \<open>batch_first = False\<close> and one sequence of length 2, \<open>feats[k]\<close> for
  \<open>k < len(seq_lens)\<close> is the first time step only, and the denominator is 1, while the
  sum over both positions of the sequence is 2.
\<close>

theorem batch_denom_time_major_counterexample:
  "pad_packed_sequence \<lparr>ps_dim = 1, ps_steps = [[[0]], [[0]]]\<rparr> False
     = Inr (\<lparr>t3_size1 = 1, t3_size2 = 1, t3_data = [[[0]], [[0]]]\<rparr>, [2])
   \<and> batch_denom \<lparr>t3_size1 = 1, t3_size2 = 1, t3_data = [[[0]], [[0]]]\<rparr> (length [2 :: nat])
         [[0], [0]] 0 = Inr 1
   \<and> pad_packed_sequence \<lparr>ps_dim = 1, ps_steps = [[[0]], [[0]]]\<rparr> True
     = Inr (\<lparr>t3_size1 = 2, t3_size2 = 1, t3_data = [[[0], [0]]]\<rparr>, [2])
   \<and> denom_formula [[[0], [0]]] 2 [0] = 2"
  by (simp add: pad_packed_sequence_def padded_batch_def seq_lengths_def permute_1_0_2_def
      batch_denom_def py_index_def exp_mm_sum_def denom_formula_def upt_rec lessThan_Suc
      numeral_2_eq_2)

section \<open>Frame of the contrastive losses\<close>

lemma preserves_new_vec: "preserves (new_vec r)"
  by (cases r) (simp_all add: preserves_def new_vec_def alloc_def)

lemma preserves_state_dep: "(\<And>s. preserves (m s)) \<Longrightarrow> preserves (\<lambda>s. m s s)"
  by (simp add: preserves_def)

lemma preserves_unary: "preserves (st_unary f a)"
  unfolding st_unary_def by (rule preserves_state_dep) (rule preserves_new_vec)

lemma preserves_unary_dep: "preserves (\<lambda>s. st_unary (f s) a s)"
  unfolding st_unary_def by (rule preserves_state_dep) (rule preserves_new_vec)

lemma preserves_binary: "preserves (st_binary f a b)"
  unfolding st_binary_def by (rule preserves_state_dep) (rule preserves_new_vec)

lemma preserves_pairwise: "preserves (st_pairwise_distance pdist a b)"
  unfolding st_pairwise_distance_def by (rule preserves_state_dep) (rule preserves_new_vec)

lemma preserves_mean: "preserves (st_mean a)"
  unfolding st_mean_def by (rule preserves_unary)

lemma preserves_bindS:
  assumes "preserves m" "\<And>a. preserves (f a)"
  shows "preserves (bindS m f)"
  unfolding preserves_def
proof (intro allI)
  fix s
  obtain r s1 where ms: "m s = (r, s1)" by (cases "m s")
  have m1: "m_margin s1 = m_margin s" "take (length (m_heap s)) (m_heap s1) = m_heap s"
    using assms(1) ms unfolding preserves_def by (metis snd_conv)+
  show "m_margin (snd (bindS m f s)) = m_margin s
        \<and> take (length (m_heap s)) (m_heap (snd (bindS m f s))) = m_heap s"
  proof (cases r)
    case (Inl e)
    then show ?thesis using ms m1 by (simp add: bindS_def)
  next
    case (Inr a)
    have f1: "m_margin (snd (f a s1)) = m_margin s1"
      "take (length (m_heap s1)) (m_heap (snd (f a s1))) = m_heap s1"
      using assms(2)[of a] unfolding preserves_def by simp_all
    have le: "length (m_heap s) \<le> length (m_heap s1)"
    proof -
      have "length (take (length (m_heap s)) (m_heap s1)) = length (m_heap s)"
        using m1(2) by simp
      then show ?thesis by simp
    qed
    have "take (length (m_heap s)) (m_heap (snd (f a s1)))
          = take (length (m_heap s)) (take (length (m_heap s1)) (m_heap (snd (f a s1))))"
      using le by (simp add: min.absorb1)
    also have "\<dots> = m_heap s" using f1(2) m1(2) by simp
    finally show ?thesis using Inr ms m1 f1 by (simp add: bindS_def)
  qed
qed

lemma preserves_ContrastiveLoss: "preserves (ContrastiveLoss_forward_st pdist a b l)"
  unfolding ContrastiveLoss_forward_st_def
  by (intro preserves_bindS preserves_pairwise preserves_unary preserves_unary_dep
      preserves_binary preserves_mean)

lemma preserves_SBContrastiveLoss: "preserves (SBContrastiveLoss_forward_st pdist a b l)"
  unfolding SBContrastiveLoss_forward_st_def
  by (intro preserves_bindS preserves_pairwise preserves_unary preserves_unary_dep
      preserves_binary preserves_mean)

lemma preserves_nth:
  assumes "preserves m" "a < length (m_heap s)"
  shows "m_heap (snd (m s)) ! a = m_heap s ! a"
proof -
  have "take (length (m_heap s)) (m_heap (snd (m s))) ! a = m_heap (snd (m s)) ! a"
    using assms(2) by simp
  then show ?thesis using assms(1) unfolding preserves_def by metis
qed

text \<open>
  C7: \<^verbatim>\<open>ContrastiveLoss.forward\<close> and \<^verbatim>\<open>SBContrastiveLoss.forward\<close> mutate no state. After
  every call, whether it returns or raises, the field \<^verbatim>\<open>margin\<close> of the module is what it
  was, and so is every tensor that existed before the call, the inputs among them; the
  call only adds new tensors, of which the returned loss is the last.
\<close>

theorem contrastive_forward_frame:
  "m_margin (snd (ContrastiveLoss_forward_st pdist output1 output2 label s)) = m_margin s
   \<and> (\<forall>a<length (m_heap s).
         m_heap (snd (ContrastiveLoss_forward_st pdist output1 output2 label s)) ! a = m_heap s ! a)
   \<and> m_margin (snd (SBContrastiveLoss_forward_st pdist output1 output2 label s)) = m_margin s
   \<and> (\<forall>a<length (m_heap s).
         m_heap (snd (SBContrastiveLoss_forward_st pdist output1 output2 label s)) ! a = m_heap s ! a)"
proof (intro conjI allI impI)
  show "m_margin (snd (ContrastiveLoss_forward_st pdist output1 output2 label s)) = m_margin s"
    using preserves_ContrastiveLoss[of pdist output1 output2 label]
    unfolding preserves_def by simp
  show "m_margin (snd (SBContrastiveLoss_forward_st pdist output1 output2 label s)) = m_margin s"
    using preserves_SBContrastiveLoss[of pdist output1 output2 label]
    unfolding preserves_def by simp
next
  fix a assume "a < length (m_heap s)"
  then show "m_heap (snd (ContrastiveLoss_forward_st pdist output1 output2 label s)) ! a = m_heap s ! a"
    by (rule preserves_nth[OF preserves_ContrastiveLoss])
next
  fix a assume "a < length (m_heap s)"
  then show "m_heap (snd (SBContrastiveLoss_forward_st pdist output1 output2 label s)) ! a = m_heap s ! a"
    by (rule preserves_nth[OF preserves_SBContrastiveLoss])
qed

lemma st_unary_run:
  assumes "a < length (m_heap s)" "m_heap s ! a = Vec v"
  shows "st_unary f a s = (case f v of Inl e \<Rightarrow> (Inl e, s)
           | Inr r \<Rightarrow> (Inr (length (m_heap s)), s\<lparr>m_heap := m_heap s @ [Vec r]\<rparr>))"
  using assms by (simp add: st_unary_def new_vec_def read_vec_def alloc_def split: sum.splits)

lemma st_binary_run:
  assumes "a < length (m_heap s)" "m_heap s ! a = Vec u" "b < length (m_heap s)" "m_heap s ! b = Vec v"
  shows "st_binary f a b s = (case f u v of Inl e \<Rightarrow> (Inl e, s)
           | Inr r \<Rightarrow> (Inr (length (m_heap s)), s\<lparr>m_heap := m_heap s @ [Vec r]\<rparr>))"
  using assms by (simp add: st_binary_def new_vec_def read_vec_def alloc_def split: sum.splits)

lemma st_pairwise_distance_run:
  assumes "a < length (m_heap s)" "m_heap s ! a = Mat x1" "b < length (m_heap s)" "m_heap s ! b = Mat x2"
  shows "st_pairwise_distance pdist a b s = (case pairwise_distance pdist x1 x2 of Inl e \<Rightarrow> (Inl e, s)
           | Inr r \<Rightarrow> (Inr (length (m_heap s)), s\<lparr>m_heap := m_heap s @ [Vec r]\<rparr>))"
  using assms by (simp add: st_pairwise_distance_def new_vec_def read_mat_def alloc_def split: sum.splits)

text \<open>
  The reading on the store computes what the reading on values computes: when the three
  addresses name two descriptor batches and a label vector, the call raises exactly when
  \<open>ContrastiveLoss_forward\<close> fails, with the same failure, and otherwise returns the
  address of a tensor holding the loss.
\<close>

lemma ContrastiveLoss_forward_st_value:
  assumes "output1 < length (m_heap s)" "m_heap s ! output1 = Mat x1"
    and "output2 < length (m_heap s)" "m_heap s ! output2 = Mat x2"
    and "label < length (m_heap s)" "m_heap s ! label = Vec lab"
  shows "(case ContrastiveLoss_forward_st pdist output1 output2 label s of
            (Inl e, s') \<Rightarrow> ContrastiveLoss_forward pdist (m_margin s) x1 x2 lab = Inl e
          | (Inr r, s') \<Rightarrow> r < length (m_heap s') \<and>
               (\<exists>v. m_heap s' ! r = Vec [v]
                    \<and> ContrastiveLoss_forward pdist (m_margin s) x1 x2 lab = Inr v))"
  unfolding ContrastiveLoss_forward_st_def ContrastiveLoss_forward_def st_mean_def
  using assms
  by (auto simp: bindS_def bindE_def st_unary_run st_binary_run st_pairwise_distance_run
      nth_append split: sum.splits)

lemma SBContrastiveLoss_forward_st_value:
  assumes "desc1 < length (m_heap s)" "m_heap s ! desc1 = Mat x1"
    and "desc2 < length (m_heap s)" "m_heap s ! desc2 = Mat x2"
    and "label < length (m_heap s)" "m_heap s ! label = Vec lab"
  shows "(case SBContrastiveLoss_forward_st pdist desc1 desc2 label s of
            (Inl e, s') \<Rightarrow> SBContrastiveLoss_forward pdist (m_margin s) x1 x2 lab = Inl e
          | (Inr r, s') \<Rightarrow> r < length (m_heap s') \<and>
               (\<exists>v. m_heap s' ! r = Vec [v]
                    \<and> SBContrastiveLoss_forward pdist (m_margin s) x1 x2 lab = Inr v))"
  unfolding SBContrastiveLoss_forward_st_def SBContrastiveLoss_forward_def st_mean_def
  using assms
  by (auto simp: bindS_def bindE_def st_unary_run st_binary_run st_pairwise_distance_run
      nth_append split: sum.splits)

text \<open>
  The theorem at the example state: after the call the margin is still 2, and the two
  descriptor batches and the label vector are at their addresses, unchanged.
\<close>

theorem contrastive_forward_frame_witness:
  "m_margin (snd (ContrastiveLoss_forward_st euclidean 0 1 2 ex_state)) = 2
   \<and> m_heap (snd (ContrastiveLoss_forward_st euclidean 0 1 2 ex_state)) ! 0
       = Mat \<lparr>t_cols = 1, t_rows = [[0], [3]]\<rparr>
   \<and> m_heap (snd (ContrastiveLoss_forward_st euclidean 0 1 2 ex_state)) ! 1
       = Mat \<lparr>t_cols = 1, t_rows = [[0], [4]]\<rparr>
   \<and> m_heap (snd (SBContrastiveLoss_forward_st euclidean 0 1 2 ex_state)) ! 2 = Vec [0, 1]"
proof -
  note fr = contrastive_forward_frame[of euclidean 0 1 2 ex_state]
  have len: "(0::nat) < length (m_heap ex_state)" "(1::nat) < length (m_heap ex_state)"
    "(2::nat) < length (m_heap ex_state)"
    by (simp_all add: ex_state_def)
  have "m_margin (snd (ContrastiveLoss_forward_st euclidean 0 1 2 ex_state)) = m_margin ex_state"
    "m_heap (snd (ContrastiveLoss_forward_st euclidean 0 1 2 ex_state)) ! 0 = m_heap ex_state ! 0"
    "m_heap (snd (ContrastiveLoss_forward_st euclidean 0 1 2 ex_state)) ! 1 = m_heap ex_state ! 1"
    "m_heap (snd (SBContrastiveLoss_forward_st euclidean 0 1 2 ex_state)) ! 2 = m_heap ex_state ! 2"
    using fr len by blast+
  then show ?thesis by (simp add: ex_state_def)
qed

end
